theory Spec2Isabelle
  imports Main "HOL-Library.Word"
begin

section \<open>Go values\<close>

text \<open>
  The arguments of a statement are Go interface values (\<open>driver.Value\<close>); the binder
  inspects their dynamic type. The model has one constructor for every type the code tells
  apart, one for a slice of any other element type, and one for a value of any other type
  (carrying the type's name, which is all the code reads of it). Go's \<open>int\<close> and
  \<open>uint\<close> are 64 bits wide; floats are kept as their bit patterns, which the code only
  passes on. A Go string is a sequence of bytes, and \<open>len\<close> counts them.
\<close>

type_synonym byte = "8 word"

text \<open>
  The calendar fields and the zone offset (seconds east of UTC) that the code reads from a
  \<open>time.Time\<close>.
\<close>

record gotime =
  Year :: int
  Month :: int
  Day :: int
  Hour :: int
  Minute :: int
  Second :: int
  Nanosecond :: int
  ZoneOffset :: int

text \<open>
  A \<open>Lob\<close> argument embeds an \<open>io.Reader\<close>. The model keeps the bytes the reader will
  deliver (\<open>None\<close> is a nil reader); the reader fills the buffer it is given until its
  content is used up and then reports \<open>io.EOF\<close>.
\<close>

record Lob =
  Reader :: "byte list option"
  IsClob :: bool

datatype val =
    VNil
  | VInt "64 word" | VInts "64 word list"
  | VInt32 "32 word" | VInt32s "32 word list"
  | VInt64 "64 word" | VInt64s "64 word list"
  | VUint "64 word" | VUints "64 word list"
  | VUint8 byte
  | VUint32 "32 word"
  | VUint64 "64 word" | VUint64s "64 word list"
  | VFloat32 "32 word" | VFloat32s "32 word list"
  | VFloat64 "64 word" | VFloat64s "64 word list"
  | VBool bool | VBools "bool list"
  | VBytes "byte list"
      \<comment> \<open>\<open>[]byte\<close>\<close>
  | VBytess "byte list list"
      \<comment> \<open>\<open>[][]byte\<close>\<close>
  | VString string | VStrings "string list"
  | VTime gotime | VTimes "gotime list"
  | VLob Lob | VLobs "Lob list"
  | VOut val
      \<comment> \<open>\<open>sql.Out{Dest: v}\<close>\<close>
  | VPtr "val option"
      \<comment> \<open>a pointer to a value; \<open>None\<close> is the nil pointer\<close>
  | VOption byte
      \<comment> \<open>an \<open>ora.Option\<close>, such as \<open>PlSQLArrays\<close>\<close>
  | VOtherSlice string "val list"
      \<comment> \<open>a slice of any other type: the type's name and the elements\<close>
  | VOther string
      \<comment> \<open>a value of any other type that is neither a slice, a string nor a pointer\<close>

text \<open>\<open>reflect.ValueOf(v).Kind() == reflect.Slice\<close>, with \<open>Len()\<close>.\<close>

fun sliceLen :: "val \<Rightarrow> nat option" where
  "sliceLen (VInts xs) = Some (length xs)"
| "sliceLen (VInt32s xs) = Some (length xs)"
| "sliceLen (VInt64s xs) = Some (length xs)"
| "sliceLen (VUints xs) = Some (length xs)"
| "sliceLen (VUint64s xs) = Some (length xs)"
| "sliceLen (VFloat32s xs) = Some (length xs)"
| "sliceLen (VFloat64s xs) = Some (length xs)"
| "sliceLen (VBools xs) = Some (length xs)"
| "sliceLen (VBytes xs) = Some (length xs)"
| "sliceLen (VBytess xs) = Some (length xs)"
| "sliceLen (VStrings xs) = Some (length xs)"
| "sliceLen (VTimes xs) = Some (length xs)"
| "sliceLen (VLobs xs) = Some (length xs)"
| "sliceLen (VOtherSlice t xs) = Some (length xs)"
| "sliceLen _ = None"

text \<open>
  \<open>reflect.ValueOf(v).Index(j).Interface()\<close>: defined on slices and on strings (whose
  elements are bytes); it panics (\<open>None\<close>) on every other kind and out of range.
\<close>

fun elems :: "val \<Rightarrow> val list option" where
  "elems (VInts xs) = Some (map VInt xs)"
| "elems (VInt32s xs) = Some (map VInt32 xs)"
| "elems (VInt64s xs) = Some (map VInt64 xs)"
| "elems (VUints xs) = Some (map VUint xs)"
| "elems (VUint64s xs) = Some (map VUint64 xs)"
| "elems (VFloat32s xs) = Some (map VFloat32 xs)"
| "elems (VFloat64s xs) = Some (map VFloat64 xs)"
| "elems (VBools xs) = Some (map VBool xs)"
| "elems (VBytes xs) = Some (map VUint8 xs)"
| "elems (VBytess xs) = Some (map VBytes xs)"
| "elems (VStrings xs) = Some (map VString xs)"
| "elems (VString s) = Some (map (\<lambda>c. VUint8 (of_char c)) s)"
| "elems (VTimes xs) = Some (map VTime xs)"
| "elems (VLobs xs) = Some (map VLob xs)"
| "elems (VOtherSlice t xs) = Some xs"
| "elems _ = None"

definition index :: "val \<Rightarrow> nat \<Rightarrow> val option" where
  "index v j =
    (case elems v of
       None \<Rightarrow> None
     | Some xs \<Rightarrow> if j < length xs then Some (xs ! j) else None)"

text \<open>An argument as the \<open>database/sql\<close> package hands it over.\<close>

record NamedValue =
  Name :: string
  Ordinal :: int
  Value :: val

section \<open>The native layer\<close>

text \<open>
  The driver talks to the ODPI-C client library through cgo. The library is not part of
  the repository, so it is the environment of the model: every native call is appended to
  a history (\<open>call list\<close>) and everything the library hands back (the status of the call,
  its output parameters, the diagnostic read by \<open>getError\<close>) is a function of the
  history up to and including that call. Any deterministic behaviour of the library is
  one such environment, and the theorems below hold for all of them.
\<close>

text \<open>
  Native handles are addresses; \<open>None\<close> is the nil pointer. A \<open>*C.dpiData\<close> is a slot of
  a variable: the variable's handle and the slot's index.
\<close>

type_synonym dpiLob = nat
type_synonym dpiVar = nat
type_synonym dpiStmt = nat
type_synonym dpiDataPtr = "dpiVar option \<times> nat"

text \<open>
  The type numbers of \<open>dpi.h\<close> that the code names. The header is not part of the
  sources; the code only compares these constants with each other, so each is a
  constructor, and any other number is \<open>TYPE_NUM\<close>.
\<close>

datatype dpiTypeNum =
    ORACLE_TYPE_VARCHAR | ORACLE_TYPE_NVARCHAR | ORACLE_TYPE_CHAR | ORACLE_TYPE_NCHAR
  | ORACLE_TYPE_LONG_VARCHAR | ORACLE_TYPE_ROWID | ORACLE_TYPE_RAW | ORACLE_TYPE_LONG_RAW
  | ORACLE_TYPE_NUMBER | ORACLE_TYPE_NATIVE_FLOAT | ORACLE_TYPE_NATIVE_DOUBLE
  | ORACLE_TYPE_NATIVE_INT | ORACLE_TYPE_NATIVE_UINT
  | ORACLE_TYPE_TIMESTAMP | ORACLE_TYPE_TIMESTAMP_TZ | ORACLE_TYPE_TIMESTAMP_LTZ
  | ORACLE_TYPE_DATE | ORACLE_TYPE_INTERVAL_DS | ORACLE_TYPE_INTERVAL_YM
  | ORACLE_TYPE_CLOB | ORACLE_TYPE_NCLOB | ORACLE_TYPE_BLOB | ORACLE_TYPE_BFILE
  | ORACLE_TYPE_STMT | ORACLE_TYPE_BOOLEAN | ORACLE_TYPE_OBJECT
  | NATIVE_TYPE_BYTES | NATIVE_TYPE_ROWID | NATIVE_TYPE_FLOAT | NATIVE_TYPE_DOUBLE
  | NATIVE_TYPE_INT64 | NATIVE_TYPE_UINT64 | NATIVE_TYPE_TIMESTAMP
  | NATIVE_TYPE_INTERVAL_DS | NATIVE_TYPE_INTERVAL_YM | NATIVE_TYPE_LOB
  | NATIVE_TYPE_STMT | NATIVE_TYPE_BOOLEAN
  | TYPE_NUM nat

datatype call =
    Lob_readBytes "dpiLob option" "64 word" "64 word"
      \<comment> \<open>\<open>dpiLob_readBytes(lob, offset, amount, ...)\<close>\<close>
  | Lob_openResource "dpiLob option"
  | Lob_writeBytes "dpiLob option" "64 word" "byte list" "64 word"
      \<comment> \<open>\<open>dpiLob_writeBytes(lob, offset, value, valueLength)\<close>\<close>
  | Lob_closeResource "dpiLob option"
  | Lob_flushBuffer "dpiLob option"
  | Lob_getSize "dpiLob option"
  | Lob_getChunkSize "dpiLob option"
  | Conn_newTempLob dpiTypeNum
  | GetError
      \<comment> \<open>\<open>getError()\<close>: reads the diagnostic of the failure just reported\<close>
  | NewVar bool dpiTypeNum dpiTypeNum nat int
      \<comment> \<open>\<open>newVar(isPlSQLArray, typ, natTyp, arraySize, bufSize)\<close>\<close>
  | Data_setInt64 dpiDataPtr "64 word"
  | Data_setUint64 dpiDataPtr "64 word"
  | Data_setFloat dpiDataPtr "32 word"
  | Data_setDouble dpiDataPtr "64 word"
  | Data_setBool dpiDataPtr "32 word"
  | Data_setTimestamp dpiDataPtr "16 word" byte byte byte byte byte "32 word" byte byte
  | Data_storeIsNull dpiDataPtr
      \<comment> \<open>the assignment \<open>data.isNull = 1\<close> into native memory\<close>
  | Var_setFromBytes "dpiVar option" "32 word" "byte list" "32 word"
  | Var_setFromLob "dpiVar option" "32 word" "dpiLob option"
  | Stmt_bindByPos "dpiStmt option" "32 word" "dpiVar option"
  | Stmt_bindByName "dpiStmt option" string "32 word" "dpiVar option"
  | Stmt_execute "dpiStmt option" bool
      \<comment> \<open>the flag: \<open>DPI_MODE_EXEC_COMMIT_ON_SUCCESS\<close> is or-ed into the default mode\<close>
  | Stmt_executeMany "dpiStmt option" bool "32 word"
  | Stmt_getRowCount "dpiStmt option"
  | Stmt_setFetchArraySize "dpiStmt option" "32 word"
  | Stmt_getQueryInfo "dpiStmt option" "32 word"
  | Stmt_define "dpiStmt option" "32 word" "dpiVar option"
  | Stmt_addRef "dpiStmt option"
  | Stmt_fetchRows "dpiStmt option" "32 word"
  | Stmt_getNumQueryColumns "dpiStmt option"

text \<open>The diagnostic returned by \<open>getError\<close>: a numeric code and a message.\<close>

record oraErr =
  Code :: int
  Message :: string

text \<open>\<open>dpiQueryInfo\<close>, as far as \<open>openRows\<close> reads it.\<close>

record dpiQueryInfo =
  qi_name :: string
  qi_oracleTypeNum :: dpiTypeNum
  qi_defaultNativeTypeNum :: dpiTypeNum
  qi_clientSizeInBytes :: "32 word"
  qi_precision :: "16 word"
  qi_scale :: byte
  qi_nullOk :: "32 word"

record dpiTimestamp =
  ts_year :: "16 word"
  ts_month :: byte
  ts_day :: byte
  ts_hour :: byte
  ts_minute :: byte
  ts_second :: byte
  ts_fsecond :: "32 word"
  ts_tzHourOffset :: byte
  ts_tzMinuteOffset :: byte

record dpiIntervalDS =
  ds_days :: "32 word"
  ds_hours :: "32 word"
  ds_minutes :: "32 word"
  ds_seconds :: "32 word"
  ds_fseconds :: "32 word"

text \<open>
  A fetched \<open>dpiData\<close> slot: the null indicator and what each accessor of the library
  (\<open>dpiData_getBytes\<close>, \<open>dpiData_getInt64\<close>, ...) reads from it. The accessors only read
  the slot; they are not entered in the history.
\<close>

record dpiData =
  isNull :: "32 word"
  getBytes :: "byte list option"
    \<comment> \<open>\<open>None\<close>: the \<open>ptr\<close> of the \<open>dpiBytes\<close> is nil; else the \<open>length\<close> bytes at \<open>ptr\<close>\<close>
  getInt64 :: "64 word"
  getUint64 :: "64 word"
  getFloat :: "32 word"
  getDouble :: "64 word"
  getTimestamp :: dpiTimestamp
  getIntervalDS :: dpiIntervalDS
  getIntervalYM :: "32 word \<times> 32 word"
  getLOB :: "dpiLob option"
  getStmt :: "dpiStmt option"
  getBool :: "32 word"

record native =
  dpi_success :: "call list \<Rightarrow> bool"
    \<comment> \<open>the last call of the history returned \<open>DPI_SUCCESS\<close> (else \<open>DPI_FAILURE\<close>)\<close>
  dpi_u64 :: "call list \<Rightarrow> 64 word"
    \<comment> \<open>the \<open>uint64_t\<close> output parameter as the last call left it\<close>
  dpi_u32 :: "call list \<Rightarrow> 32 word"
    \<comment> \<open>the \<open>uint32_t\<close> output parameter as the last call left it\<close>
  dpi_bytes :: "call list \<Rightarrow> byte list"
    \<comment> \<open>the bytes the last call stored through its buffer pointer\<close>
  dpi_error :: "call list \<Rightarrow> oraErr"
    \<comment> \<open>what \<open>getError\<close> reports\<close>
  dpi_var :: "call list \<Rightarrow> dpiVar"
    \<comment> \<open>the variable created by \<open>newVar\<close>\<close>
  dpi_lob :: "call list \<Rightarrow> dpiLob option"
    \<comment> \<open>the locator stored by \<open>dpiConn_newTempLob\<close>\<close>
  dpi_queryInfo :: "call list \<Rightarrow> dpiQueryInfo"
  dpi_bufferRowIndex :: "call list \<Rightarrow> 32 word"
  dpi_numRowsFetched :: "call list \<Rightarrow> 32 word"
  dpi_moreRows :: "call list \<Rightarrow> 32 word"
    \<comment> \<open>the three output parameters of \<open>dpiStmt_fetchRows\<close>\<close>
  dpi_data :: "call list \<Rightarrow> nat \<Rightarrow> nat \<Rightarrow> dpiData"
    \<comment> \<open>the content of slot \<open>j\<close> of the variable defined for column \<open>i\<close>\<close>

section \<open>Errors\<close>

text \<open>
  Every error the Go code builds is a constructor, carrying the values the message is
  formatted from. A run-time panic of Go (index out of range, nil dereference, failed type
  assertion) is the value \<open>Panic\<close>.
\<close>

datatype error =
    EOF
      \<comment> \<open>\<open>io.EOF\<close>\<close>
  | Canceled
      \<comment> \<open>\<open>context.Canceled\<close>\<close>
  | DeadlineExceeded
      \<comment> \<open>\<open>context.DeadlineExceeded\<close>\<close>
  | ErrShortWrite
      \<comment> \<open>\<open>io.ErrShortWrite\<close>\<close>
  | ErrorsNew string
      \<comment> \<open>\<open>errors.New(msg)\<close>\<close>
  | Native oraErr
      \<comment> \<open>the bare result of \<open>getError()\<close>\<close>
  | LobReadFailed oraErr "dpiLob option" "64 word" nat
      \<comment> \<open>\<open>errors.Wrapf(err, "lob=%p offset=%d n=%d", dlr.dpiLob, dlr.offset, len(p))\<close>\<close>
  | OpenResourcesFailed oraErr "dpiLob option"
      \<comment> \<open>\<open>errors.Wrapf(getError(), "openResources(%p)", lob)\<close>\<close>
  | WriteBytesFailed oraErr "dpiLob option" "64 word" "64 word"
      \<comment> \<open>\<open>errors.Wrapf(getError(), "writeBytes(%p, offset=%d, data=%d)", lob, offset, n)\<close>\<close>
  | LobSizeMismatch "dpiLob option" "64 word" "64 word"
      \<comment> \<open>\<open>errors.Errorf("%p size=%d, offset=%d", lob, size, dlw.offset)\<close>\<close>
  | CloseResourceFailed oraErr "dpiLob option"
      \<comment> \<open>\<open>errors.Wrapf(getError(), "closeResource(%p)", lob)\<close>\<close>
  | SliceTooBig int int
      \<comment> \<open>\<open>"slice is bigger (%d) than the maximum (%d)"\<close>: the size-limit error\<close>
  | DifferentLengths int int
      \<comment> \<open>\<open>"PlSQLArrays is not set, but has different lengthed slices (min=%d < %d=max)"\<close>:
          the shape-mismatch error\<close>
  | UnknownType int val
      \<comment> \<open>\<open>"%d. arg: unknown type %T"\<close>\<close>
  | NewVarFailed oraErr
      \<comment> \<open>the error of \<open>newVar\<close>\<close>
  | WithMessage error nat
      \<comment> \<open>\<open>errors.WithMessage(err, fmt.Sprintf("%d", i))\<close>\<close>
  | SetFailed error nat nat val
      \<comment> \<open>\<open>errors.Wrapf(err, "set(data[%d][%d], %#v (%T))", i, j, v, v)\<close>\<close>
  | UnknownNumber val
      \<comment> \<open>\<open>"unknown number [%T] %#v"\<close>\<close>
  | AwaitedBytes val
      \<comment> \<open>\<open>"awaited []byte/string, got %T (%#v)"\<close>\<close>
  | NewTempLobFailed oraErr dpiTypeNum
      \<comment> \<open>\<open>errors.Wrapf(getError(), "newTempLob(typ=%d)", typ)\<close>\<close>
  | ExecuteFailed oraErr bool int
      \<comment> \<open>\<open>errors.Wrapf(getError(), "dpiStmt_execute(mode=%d arrLen=%d)", mode, arrLen)\<close>\<close>
  | QueryFailed oraErr
      \<comment> \<open>\<open>errors.Wrapf(getError(), "dpiStmt_execute")\<close>\<close>
  | UnsupportedColumn dpiTypeNum
      \<comment> \<open>\<open>"unsupported column type %d"\<close>\<close>
  | Panic string

section \<open>LOB stream adapters\<close>

subsection \<open>Reader\<close>

record dpiLobReader =
  dlr_dpiLob :: "dpiLob option"
  dlr_offset :: "64 word"
  dlr_finished :: bool

text \<open>
  The native read stores its bytes at the start of the caller's buffer \<open>p\<close>; it never
  writes past the end of \<open>p\<close>.
\<close>

definition stored :: "byte list \<Rightarrow> byte list \<Rightarrow> byte list" where
  "stored p d = take (length p) d @ drop (length d) p"

text \<open>
  The result of \<open>Read\<close>: the reader after the call (\<open>None\<close> is a nil receiver), the
  buffer after the call, the two return values \<open>(int, error)\<close> and the history.
  This is the reader of the LOB source file, with its \<open>finished\<close> flag; the file of the
  result sets carries an earlier copy of the type, which this one replaces. The lines
  that the code prints with \<open>fmt.Printf\<close> are not part of the model, here and below.
\<close>

record read_result =
  rd_reader :: "dpiLobReader option"
  rd_buf :: "byte list"
  rd_n :: int
  rd_err :: "error option"
  rd_calls :: "call list"

definition Read :: "native \<Rightarrow> dpiLobReader option \<Rightarrow> byte list \<Rightarrow> call list \<Rightarrow> read_result" where
  "Read env r p h =
    (case r of
       None \<Rightarrow>
         \<lparr>rd_reader = None, rd_buf = p, rd_n = 0,
          rd_err = Some (ErrorsNew ''read on nil dpiLobReader''), rd_calls = h\<rparr>
     | Some dlr \<Rightarrow>
         if dlr_finished dlr then
           \<lparr>rd_reader = Some dlr, rd_buf = p, rd_n = 0, rd_err = Some EOF, rd_calls = h\<rparr>
         else if length p = 0 then
           \<lparr>rd_reader = Some dlr, rd_buf = p, rd_n = 0, rd_err = None, rd_calls = h\<rparr>
         else
           let h1 = h @ [Lob_readBytes (dlr_dpiLob dlr) (dlr_offset dlr + 1) (of_nat (length p))];
               n = dpi_u64 env h1;
               p' = stored p (dpi_bytes env h1)
           in if \<not> dpi_success env h1 then
                let h2 = h1 @ [GetError];
                    err = dpi_error env h2
                in if Code err = 1403 then
                     \<lparr>rd_reader = Some (dlr\<lparr>dlr_finished := True, dlr_offset := dlr_offset dlr + n\<rparr>),
                      rd_buf = p', rd_n = sint n, rd_err = Some EOF, rd_calls = h2\<rparr>
                   else
                     \<lparr>rd_reader = Some (dlr\<lparr>dlr_finished := False\<rparr>),
                      rd_buf = p', rd_n = sint n,
                      rd_err = Some (LobReadFailed err (dlr_dpiLob dlr) (dlr_offset dlr) (length p)),
                      rd_calls = h2\<rparr>
              else
                \<lparr>rd_reader = Some (dlr\<lparr>dlr_offset := dlr_offset dlr + n\<rparr>),
                 rd_buf = p', rd_n = sint n,
                 rd_err = (if n = 0 then Some EOF else None), rd_calls = h1\<rparr>)"

subsection \<open>Writer\<close>

record dpiLobWriter =
  dlw_dpiLob :: "dpiLob option"
  dlw_offset :: "64 word"
  dlw_opened :: bool

record write_result =
  wr_writer :: dpiLobWriter
  wr_n :: int
  wr_err :: "error option"
  wr_calls :: "call list"

text \<open>
  \<open>Write\<close> is called on a writer that is not nil (\<open>dataSetLOB\<close> builds it).
  It takes \<open>&p[0]\<close> while it builds the arguments of the native write, after the
  resource has been opened: an empty \<open>p\<close> panics there. \<open>CheckLOBWrite\<close> is the constant
  \<open>true\<close>, so the size check after a successful write always runs; the status of
  \<open>dpiLob_getSize\<close> is not looked at.
\<close>

definition Write :: "native \<Rightarrow> dpiLobWriter \<Rightarrow> byte list \<Rightarrow> call list \<Rightarrow> write_result" where
  "Write env dlw p h =
    (let lob = dlw_dpiLob dlw;
         h0 = (if dlw_opened dlw then h else h @ [Lob_openResource lob])
     in if \<not> dlw_opened dlw \<and> \<not> dpi_success env h0 then
          let h1 = h0 @ [GetError]
          in \<lparr>wr_writer = dlw, wr_n = 0,
              wr_err = Some (OpenResourcesFailed (dpi_error env h1) lob), wr_calls = h1\<rparr>
        else
          let dlw1 = dlw\<lparr>dlw_opened := True\<rparr>;
              n = (of_nat (length p) :: 64 word)
          in if p = [] then
               \<lparr>wr_writer = dlw1, wr_n = 0,
                wr_err = Some (Panic ''index out of range''), wr_calls = h0\<rparr>
             else
               let h1 = h0 @ [Lob_writeBytes lob (dlw_offset dlw1 + 1) p n]
               in if \<not> dpi_success env h1 then
                    let h2 = h1 @ [GetError];
                        err = WriteBytesFailed (dpi_error env h2) lob (dlw_offset dlw1) n;
                        h3 = h2 @ [Lob_closeResource lob]
                    in \<lparr>wr_writer = dlw1\<lparr>dlw_dpiLob := None\<rparr>, wr_n = 0,
                        wr_err = Some err, wr_calls = h3\<rparr>
                  else
                    let dlw2 = dlw1\<lparr>dlw_offset := dlw_offset dlw1 + n\<rparr>;
                        h2 = h1 @ [Lob_getSize lob];
                        size = dpi_u64 env h2
                    in if size \<noteq> dlw_offset dlw2 then
                         \<lparr>wr_writer = dlw2, wr_n = sint n,
                          wr_err = Some (LobSizeMismatch lob size (dlw_offset dlw2)),
                          wr_calls = h2\<rparr>
                       else
                         \<lparr>wr_writer = dlw2, wr_n = sint n, wr_err = None, wr_calls = h2\<rparr>)"

text \<open>\<open>Close\<close> on a nil writer, or on a writer whose locator is nil, does nothing.\<close>

definition Close :: "native \<Rightarrow> dpiLobWriter option \<Rightarrow> call list \<Rightarrow>
    dpiLobWriter option \<times> error option \<times> call list" where
  "Close env w h =
    (case w of
       None \<Rightarrow> (None, None, h)
     | Some dlw \<Rightarrow>
         (case dlw_dpiLob dlw of
            None \<Rightarrow> (Some dlw, None, h)
          | Some l \<Rightarrow>
              let lob = Some l;
                  dlw1 = dlw\<lparr>dlw_dpiLob := None\<rparr>;
                  h1 = h @ [Lob_flushBuffer lob];
                  h2 = h1 @ [Lob_closeResource lob]
              in if \<not> dpi_success env h2 then
                   let h3 = h2 @ [GetError]
                   in (Some dlw1, Some (CloseResourceFailed (dpi_error env h3) lob), h3)
                 else (Some dlw1, None, h2)))"

section \<open>Statements and the binder\<close>

text \<open>
  A Go slice is a window of \<open>sl_len\<close> elements on a backing array, whose length is the
  capacity. \<open>resize\<close> is what \<open>bindVars\<close> does to \<open>st.vars\<close> and \<open>st.data\<close>: a fresh
  zeroed array when the capacity is too small, the same array with a new length otherwise.
\<close>

record 'a slice =
  sl_arr :: "'a list"
  sl_len :: nat

definition resize :: "'a \<Rightarrow> 'a slice \<Rightarrow> nat \<Rightarrow> 'a slice" where
  "resize zero s n =
    (if length (sl_arr s) < n then \<lparr>sl_arr = replicate n zero, sl_len = n\<rparr>
     else s\<lparr>sl_len := n\<rparr>)"

definition store :: "'a slice \<Rightarrow> nat \<Rightarrow> 'a \<Rightarrow> 'a slice" where
  "store s i x = s\<lparr>sl_arr := (sl_arr s)[i := x]\<rparr>"

definition view :: "'a slice \<Rightarrow> 'a list" where
  "view s = take (sl_len s) (sl_arr s)"

text \<open>
  The statement, with the \<open>inTransaction\<close> field of the connection it embeds. \<open>data\<close>
  holds, for each argument, the slots of its variable.
\<close>

record statement =
  inTransaction :: bool
  dpiStmt :: "dpiStmt option"
  query :: string
  data :: "dpiDataPtr list slice"
  vars :: "dpiVar option slice"
  PlSQLArrays :: bool
  arrLen :: int

definition maxArraySize :: int where
  "maxArraySize = 2 ^ 10"

definition fetchRowCount :: nat where
  "fetchRowCount = 1"

text \<open>
  Modelled from the spec: \<open>newVar\<close> is called by \<open>bindVars\<close> and \<open>openRows\<close> but is not
  part of the sources. By the spec it allocates a native variable buffer that owns exactly
  the requested number of slots, of the requested byte capacity; on failure it returns no
  variable, no slots and an error.
\<close>

definition newVar :: "native \<Rightarrow> bool \<Rightarrow> dpiTypeNum \<Rightarrow> dpiTypeNum \<Rightarrow> nat \<Rightarrow> int \<Rightarrow> call list \<Rightarrow>
    dpiVar option \<times> dpiDataPtr list \<times> error option \<times> call list" where
  "newVar env isPlSQLArray typ natTyp arraySize bufSize h =
    (let h1 = h @ [NewVar isPlSQLArray typ natTyp arraySize bufSize]
     in if dpi_success env h1 then
          let v = Some (dpi_var env h1)
          in (v, map (\<lambda>j. (v, j)) [0..<arraySize], None, h1)
        else
          let h2 = h1 @ [GetError]
          in (None, [], Some (NewVarFailed (dpi_error env h2)), h2))"

subsection \<open>Batch shape\<close>

text \<open>The first loop of \<open>bindVars\<close>: the least and the greatest length of the slice
  arguments, \<open>-1\<close> while none has been seen. A \<open>[]byte\<close> is skipped.\<close>

definition isByteSlice :: "val \<Rightarrow> bool" where
  "isByteSlice v = (case v of VBytes b \<Rightarrow> True | _ \<Rightarrow> False)"

definition scanStep :: "NamedValue \<Rightarrow> int \<times> int \<Rightarrow> int \<times> int" where
  "scanStep a mm =
    (let minArrLen = fst mm; maxArrLen = snd mm
     in if isByteSlice (Value a) then mm
        else case sliceLen (Value a) of
               None \<Rightarrow> mm
             | Some l \<Rightarrow>
                 let n = int l
                 in (if minArrLen = -1 \<or> n < minArrLen then n else minArrLen,
                     if maxArrLen = -1 \<or> n > maxArrLen then n else maxArrLen))"

definition scanArrLen :: "NamedValue list \<Rightarrow> int \<times> int" where
  "scanArrLen args = fold scanStep args (-1, -1)"

subsection \<open>Type dispatch\<close>

datatype dataSetter = SetLOB | SetNumber | SetBool | SetBytes | SetTimestamp

text \<open>The unwrapping of \<open>sql.Out\<close> at the head of the second loop.\<close>

definition unwrapOut :: "val \<Rightarrow> error + val" where
  "unwrapOut v =
    (case v of
       VOut dest \<Rightarrow>
         (case dest of
            VPtr None \<Rightarrow> Inl (Panic ''reflect: call of reflect.Value.Interface on zero Value'')
          | VPtr (Some x) \<Rightarrow> Inr x
          | _ \<Rightarrow> Inr dest)
     | _ \<Rightarrow> Inr v)"

text \<open>The capacity loops: \<open>if n := len(b); n > bufSize { bufSize = n }\<close> for byte
  slices and \<open>if n := 4 * len(s); n > bufSize { bufSize = n }\<close> for strings. Lengths
  are those of values held in memory, far below \<open>2^61\<close>, so that \<open>4 * len(s)\<close> does
  not overflow the 64-bit \<open>int\<close>; they are kept as integers.\<close>

definition bytesBufSize :: "byte list list \<Rightarrow> int" where
  "bytesBufSize v =
    fold (\<lambda>b bufSize. let n = int (length b) in if n > bufSize then n else bufSize) v 0"

definition stringsBufSize :: "string list \<Rightarrow> int" where
  "stringsBufSize v =
    fold (\<lambda>s bufSize. let n = 4 * int (length s) in if n > bufSize then n else bufSize) v 0"

text \<open>The type switch: Oracle type, native type, buffer size and setter; \<open>None\<close> is the
  \<open>default\<close> branch.\<close>

fun typeSwitch :: "val \<Rightarrow> (dpiTypeNum \<times> dpiTypeNum \<times> int \<times> dataSetter) option" where
  "typeSwitch (VLob v) =
     Some (if IsClob v then ORACLE_TYPE_CLOB else ORACLE_TYPE_BLOB, NATIVE_TYPE_LOB, 0, SetLOB)"
| "typeSwitch (VLobs v) =
     Some (if length v > 0 \<and> IsClob (hd v) then ORACLE_TYPE_CLOB else ORACLE_TYPE_BLOB,
           NATIVE_TYPE_LOB, 0, SetLOB)"
| "typeSwitch (VInt v) = Some (ORACLE_TYPE_NUMBER, NATIVE_TYPE_INT64, 0, SetNumber)"
| "typeSwitch (VInts v) = Some (ORACLE_TYPE_NUMBER, NATIVE_TYPE_INT64, 0, SetNumber)"
| "typeSwitch (VInt32 v) = Some (ORACLE_TYPE_NUMBER, NATIVE_TYPE_INT64, 0, SetNumber)"
| "typeSwitch (VInt32s v) = Some (ORACLE_TYPE_NUMBER, NATIVE_TYPE_INT64, 0, SetNumber)"
| "typeSwitch (VInt64 v) = Some (ORACLE_TYPE_NUMBER, NATIVE_TYPE_INT64, 0, SetNumber)"
| "typeSwitch (VInt64s v) = Some (ORACLE_TYPE_NUMBER, NATIVE_TYPE_INT64, 0, SetNumber)"
| "typeSwitch (VUint v) = Some (ORACLE_TYPE_NUMBER, NATIVE_TYPE_UINT64, 0, SetNumber)"
| "typeSwitch (VUints v) = Some (ORACLE_TYPE_NUMBER, NATIVE_TYPE_UINT64, 0, SetNumber)"
| "typeSwitch (VUint64 v) = Some (ORACLE_TYPE_NUMBER, NATIVE_TYPE_UINT64, 0, SetNumber)"
| "typeSwitch (VUint64s v) = Some (ORACLE_TYPE_NUMBER, NATIVE_TYPE_UINT64, 0, SetNumber)"
| "typeSwitch (VFloat32 v) = Some (ORACLE_TYPE_NUMBER, NATIVE_TYPE_FLOAT, 0, SetNumber)"
| "typeSwitch (VFloat32s v) = Some (ORACLE_TYPE_NUMBER, NATIVE_TYPE_FLOAT, 0, SetNumber)"
| "typeSwitch (VFloat64 v) = Some (ORACLE_TYPE_NUMBER, NATIVE_TYPE_DOUBLE, 0, SetNumber)"
| "typeSwitch (VFloat64s v) = Some (ORACLE_TYPE_NUMBER, NATIVE_TYPE_DOUBLE, 0, SetNumber)"
| "typeSwitch (VBool v) = Some (ORACLE_TYPE_BOOLEAN, NATIVE_TYPE_BOOLEAN, 0, SetBool)"
| "typeSwitch (VBools v) = Some (ORACLE_TYPE_BOOLEAN, NATIVE_TYPE_BOOLEAN, 0, SetBool)"
| "typeSwitch (VBytes v) = Some (ORACLE_TYPE_RAW, NATIVE_TYPE_BYTES, int (length v), SetBytes)"
| "typeSwitch (VBytess v) = Some (ORACLE_TYPE_RAW, NATIVE_TYPE_BYTES, bytesBufSize v, SetBytes)"
| "typeSwitch (VString v) =
     Some (ORACLE_TYPE_VARCHAR, NATIVE_TYPE_BYTES, 4 * int (length v), SetBytes)"
| "typeSwitch (VStrings v) =
     Some (ORACLE_TYPE_VARCHAR, NATIVE_TYPE_BYTES, stringsBufSize v, SetBytes)"
| "typeSwitch (VTime v) = Some (ORACLE_TYPE_TIMESTAMP_TZ, NATIVE_TYPE_TIMESTAMP, 0, SetTimestamp)"
| "typeSwitch (VTimes v) = Some (ORACLE_TYPE_TIMESTAMP_TZ, NATIVE_TYPE_TIMESTAMP, 0, SetTimestamp)"
| "typeSwitch _ = None"

subsection \<open>Setters\<close>

fun dataSetNumber :: "dpiDataPtr \<Rightarrow> val \<Rightarrow> call list \<Rightarrow> error option \<times> call list" where
  "dataSetNumber d (VInt x) h = (None, h @ [Data_setInt64 d x])"
| "dataSetNumber d (VInt32 x) h = (None, h @ [Data_setInt64 d (scast x)])"
| "dataSetNumber d (VInt64 x) h = (None, h @ [Data_setInt64 d x])"
| "dataSetNumber d (VUint x) h = (None, h @ [Data_setUint64 d x])"
| "dataSetNumber d (VUint32 x) h = (None, h @ [Data_setUint64 d (ucast x)])"
| "dataSetNumber d (VUint64 x) h = (None, h @ [Data_setUint64 d x])"
| "dataSetNumber d (VFloat32 x) h = (None, h @ [Data_setFloat d x])"
| "dataSetNumber d (VFloat64 x) h = (None, h @ [Data_setDouble d x])"
| "dataSetNumber d v h = (Some (UnknownNumber v), h)"

text \<open>\<open>dataSetBytes\<close> takes the address of the first byte: an empty value panics.\<close>

definition setFromBytes :: "dpiVar option \<Rightarrow> nat \<Rightarrow> byte list \<Rightarrow> call list \<Rightarrow>
    error option \<times> call list" where
  "setFromBytes dv pos x h =
    (if x = [] then (Some (Panic ''index out of range''), h)
     else (None, h @ [Var_setFromBytes dv (of_nat pos) x (of_nat (length x))]))"

fun dataSetBytes :: "dpiVar option \<Rightarrow> nat \<Rightarrow> val \<Rightarrow> call list \<Rightarrow> error option \<times> call list" where
  "dataSetBytes dv pos (VBytes x) h = setFromBytes dv pos x h"
| "dataSetBytes dv pos (VString x) h = setFromBytes dv pos (map of_char x) h"
| "dataSetBytes dv pos v h = (Some (AwaitedBytes v), h)"

fun dataSetBool :: "dpiDataPtr \<Rightarrow> val \<Rightarrow> call list \<Rightarrow> error option \<times> call list" where
  "dataSetBool d (VBool b) h = (None, h @ [Data_setBool d (if b then 1 else 0)])"
| "dataSetBool d v h = (Some (Panic ''interface conversion: not bool''), h)"

text \<open>Go's \<open>/\<close> and \<open>%\<close> on integers truncate towards zero.\<close>

definition quo :: "int \<Rightarrow> int \<Rightarrow> int" where
  "quo a b = (if (a < 0) = (b < 0) then \<bar>a\<bar> div \<bar>b\<bar> else - (\<bar>a\<bar> div \<bar>b\<bar>))"

definition rem :: "int \<Rightarrow> int \<Rightarrow> int" where
  "rem a b = a - b * quo a b"

fun dataSetTimestamp :: "dpiDataPtr \<Rightarrow> val \<Rightarrow> call list \<Rightarrow> error option \<times> call list" where
  "dataSetTimestamp d (VTime t) h =
     (let z = ZoneOffset t
      in (None, h @ [Data_setTimestamp d
            (of_int (Year t)) (of_int (Month t)) (of_int (Day t))
            (of_int (Hour t)) (of_int (Minute t)) (of_int (Second t)) (of_int (Nanosecond t))
            (of_int (quo z 3600)) (of_int (quo (rem z 3600) 60))]))"
| "dataSetTimestamp d v h = (Some (Panic ''interface conversion: not time.Time''), h)"

text \<open>
  A panic is not an error value that a caller could wrap or ignore: it leaves the function
  it reaches. \<open>panicked\<close> tells the panic from the errors that are returned.
\<close>

definition isPanic :: "error \<Rightarrow> bool" where
  "isPanic e = (case e of Panic msg \<Rightarrow> True | _ \<Rightarrow> False)"

definition panicked :: "error option \<Rightarrow> bool" where
  "panicked err = (case err of None \<Rightarrow> False | Some e \<Rightarrow> isPanic e)"

text \<open>
  \<open>dataSetLOB\<close> streams the value into a temporary LOB with \<open>io.CopyBuffer\<close>, whose
  buffer has the chunk size of the locator (\<open>1 << 20\<close> when the library reports 0).
  \<open>chunks\<close> are the successive reads of the value's reader into that buffer.
\<close>

function chunks :: "nat \<Rightarrow> byte list \<Rightarrow> byte list list" where
  "chunks n xs = (if n = 0 \<or> xs = [] then [] else take n xs # chunks n (drop n xs))"
  by pat_completeness auto
termination
  by (relation "measure (\<lambda>(n, xs). length xs)") auto

declare chunks.simps [simp del]

text \<open>The loop of \<open>io.CopyBuffer\<close>: it stops at the first error of \<open>Write\<close>, and with
  \<open>io.ErrShortWrite\<close> when \<open>Write\<close> reports fewer bytes than it was given.\<close>

fun copyBuffer :: "native \<Rightarrow> dpiLobWriter \<Rightarrow> byte list list \<Rightarrow> call list \<Rightarrow>
    dpiLobWriter \<times> error option \<times> call list" where
  "copyBuffer env lw [] h = (lw, None, h)"
| "copyBuffer env lw (c # cs) h =
     (let r = Write env lw c h
      in case wr_err r of
           Some ew \<Rightarrow> (wr_writer r, Some ew, wr_calls r)
         | None \<Rightarrow>
             if wr_n r \<noteq> int (length c) then (wr_writer r, Some ErrShortWrite, wr_calls r)
             else copyBuffer env (wr_writer r) cs (wr_calls r))"

definition dataSetLOB :: "native \<Rightarrow> dpiVar option \<Rightarrow> nat \<Rightarrow> dpiDataPtr \<Rightarrow> val \<Rightarrow> call list \<Rightarrow>
    error option \<times> call list" where
  "dataSetLOB env dv pos d v h =
    (case v of
       VLob L \<Rightarrow>
         (case Reader L of
            None \<Rightarrow> (None, h @ [Data_storeIsNull d])
          | Some content \<Rightarrow>
              let typ = (if IsClob L then ORACLE_TYPE_CLOB else ORACLE_TYPE_BLOB);
                  h1 = h @ [Conn_newTempLob typ]
              in if \<not> dpi_success env h1 then
                   let h2 = h1 @ [GetError]
                   in (Some (NewTempLobFailed (dpi_error env h2) typ), h2)
                 else
                   let lob = dpi_lob env h1;
                       h2 = h1 @ [Lob_getChunkSize lob];
                       chunkSize = (if dpi_u32 env h2 = 0 then 2 ^ 20 else unat (dpi_u32 env h2));
                       lw = \<lparr>dlw_dpiLob = lob, dlw_offset = 0, dlw_opened = False\<rparr>;
                       (lw1, err, h3) = copyBuffer env lw (chunks chunkSize content) h2
                   in if panicked err then (err, h3)
                      else
                        let (lw2, closeErr, h4) = Close env (Some lw1) h3;
                            err1 = (if closeErr \<noteq> None \<and> err = None then closeErr else err);
                            h5 = h4 @ [Var_setFromLob dv (of_nat pos) lob]
                        in (err1, h5))
     | _ \<Rightarrow> (Some (Panic ''interface conversion: not ora.Lob''), h))"

definition applySet :: "native \<Rightarrow> dataSetter \<Rightarrow> dpiVar option \<Rightarrow> nat \<Rightarrow> dpiDataPtr \<Rightarrow> val \<Rightarrow>
    call list \<Rightarrow> error option \<times> call list" where
  "applySet env setter dv pos d v h =
    (case setter of
       SetLOB \<Rightarrow> dataSetLOB env dv pos d v h
     | SetNumber \<Rightarrow> dataSetNumber d v h
     | SetBool \<Rightarrow> dataSetBool d v h
     | SetBytes \<Rightarrow> dataSetBytes dv pos v h
     | SetTimestamp \<Rightarrow> dataSetTimestamp d v h)"

subsection \<open>bindVars\<close>

text \<open>
  What \<open>bindVars\<close> makes of a setter that did not succeed: an error that the setter
  returned is wrapped with \<open>errors.Wrapf(err, "set(data[%d][%d], %#v (%T))", i, j, v, v)\<close>;
  a panic of the setter (the address of the first byte of an empty value, a failed type
  assertion) is not wrapped and leaves \<open>bindVars\<close> as the panic it is.
\<close>

definition setError :: "error \<Rightarrow> nat \<Rightarrow> nat \<Rightarrow> val \<Rightarrow> error" where
  "setError err i j v = (if isPanic err then err else SetFailed err i j v)"

text \<open>
  The loop \<open>for j := 0; j < dataSliceLen; j++\<close> of batch mode, over the indices still to
  do: slot \<open>j\<close> receives element \<open>j\<close> of the argument as passed (\<open>rArgs[i].Index(j)\<close>).
\<close>

fun setSlots :: "native \<Rightarrow> dataSetter \<Rightarrow> dpiVar option \<Rightarrow> dpiDataPtr list \<Rightarrow> nat \<Rightarrow> val \<Rightarrow>
    nat list \<Rightarrow> call list \<Rightarrow> error option \<times> call list" where
  "setSlots env setter dv dat i rArg [] h = (None, h)"
| "setSlots env setter dv dat i rArg (j # js) h =
     (if \<not> j < length dat then (Some (Panic ''index out of range''), h)
      else case index rArg j of
             None \<Rightarrow> (Some (Panic ''reflect: call of reflect.Value.Index''), h)
           | Some x \<Rightarrow>
               (case applySet env setter dv j (dat ! j) x h of
                  (Some err, h1) \<Rightarrow> (Some (setError err i j x), h1)
                | (None, h1) \<Rightarrow> setSlots env setter dv dat i rArg js h1))"

text \<open>
  One round of the second loop of \<open>bindVars\<close>, for argument \<open>a\<close> at index \<open>i\<close>. The type
  switch runs on the unwrapped \<open>value\<close>; the setter of scalar mode is called on
  \<open>a.Value\<close>, as the source has it.
\<close>

definition bindArg :: "native \<Rightarrow> bool \<Rightarrow> nat \<Rightarrow> nat \<Rightarrow> NamedValue \<Rightarrow> statement \<Rightarrow> call list \<Rightarrow>
    statement \<times> error option \<times> call list" where
  "bindArg env doExecMany dataSliceLen i a st h =
    (case unwrapOut (Value a) of
       Inl e \<Rightarrow> (st, Some e, h)
     | Inr v \<Rightarrow>
         (case typeSwitch v of
            None \<Rightarrow> (st, Some (UnknownType (int i + 1) v), h)
          | Some (typ, natTyp, bufSize, setter) \<Rightarrow>
              (case newVar env (PlSQLArrays st) typ natTyp dataSliceLen bufSize h of
                 (dv, dat, err, h1) \<Rightarrow>
                   let st1 = st\<lparr>vars := store (vars st) i dv, data := store (data st) i dat\<rparr>
                   in (case err of
                         Some e \<Rightarrow> (st1, Some (WithMessage e i), h1)
                       | None \<Rightarrow>
                           if \<not> doExecMany then
                             (if dat = [] then (st1, Some (Panic ''index out of range''), h1)
                              else case applySet env setter dv 0 (dat ! 0) (Value a) h1 of
                                     (Some e, h2) \<Rightarrow> (st1, Some (setError e i 0 (Value a)), h2)
                                   | (None, h2) \<Rightarrow> (st1, None, h2))
                           else
                             (case setSlots env setter dv dat i (Value a) [0..<dataSliceLen] h1 of
                                (e, h2) \<Rightarrow> (st1, e, h2))))))"

text \<open>The second loop: \<open>named\<close> becomes true at the first argument with a name.\<close>

fun bindArgs :: "native \<Rightarrow> bool \<Rightarrow> nat \<Rightarrow> nat \<Rightarrow> NamedValue list \<Rightarrow> bool \<Rightarrow> statement \<Rightarrow>
    call list \<Rightarrow> bool \<times> statement \<times> error option \<times> call list" where
  "bindArgs env doExecMany dataSliceLen i [] named st h = (named, st, None, h)"
| "bindArgs env doExecMany dataSliceLen i (a # as) named st h =
     (let named1 = (if \<not> named then Name a \<noteq> [] else named)
      in case bindArg env doExecMany dataSliceLen i a st h of
           (st1, Some e, h1) \<Rightarrow> (named1, st1, Some e, h1)
         | (st1, None, h1) \<Rightarrow> bindArgs env doExecMany dataSliceLen (Suc i) as named1 st1 h1)"

text \<open>Binding by position: \<open>for i, v := range st.vars\<close>.\<close>

fun bindByPos :: "native \<Rightarrow> dpiStmt option \<Rightarrow> nat \<Rightarrow> dpiVar option list \<Rightarrow> call list \<Rightarrow>
    error option \<times> call list" where
  "bindByPos env stmt i [] h = (None, h)"
| "bindByPos env stmt i (v # vs) h =
     (let h1 = h @ [Stmt_bindByPos stmt (of_nat (i + 1)) v]
      in if \<not> dpi_success env h1 then
           let h2 = h1 @ [GetError] in (Some (Native (dpi_error env h2)), h2)
         else bindByPos env stmt (Suc i) vs h1)"

text \<open>\<open>strconv.Itoa\<close>.\<close>

fun digits :: "nat \<Rightarrow> string" where
  "digits n = (if n < 10 then [char_of (48 + n)] else digits (n div 10) @ [char_of (48 + n mod 10)])"

declare digits.simps [simp del]

definition Itoa :: "int \<Rightarrow> string" where
  "Itoa i = (if i < 0 then CHR ''-'' # digits (nat (- i)) else digits (nat i))"

text \<open>Binding by name: \<open>for i, a := range args\<close>; an empty name is replaced by the
  ordinal.\<close>

fun bindByName :: "native \<Rightarrow> dpiStmt option \<Rightarrow> dpiVar option list \<Rightarrow> nat \<Rightarrow> NamedValue list \<Rightarrow>
    call list \<Rightarrow> error option \<times> call list" where
  "bindByName env stmt vs i [] h = (None, h)"
| "bindByName env stmt vs i (a # as) h =
     (let name = (if Name a = [] then Itoa (Ordinal a) else Name a)
      in if \<not> i < length vs then (Some (Panic ''index out of range''), h)
         else
           let h1 = h @ [Stmt_bindByName stmt name (of_nat (length name)) (vs ! i)]
           in if \<not> dpi_success env h1 then
                let h2 = h1 @ [GetError] in (Some (Native (dpi_error env h2)), h2)
              else bindByName env stmt vs (Suc i) as h1)"

definition bindVars :: "native \<Rightarrow> statement \<Rightarrow> NamedValue list \<Rightarrow> call list \<Rightarrow>
    statement \<times> error option \<times> call list" where
  "bindVars env st args h =
    (let st1 = st\<lparr>vars := resize None (vars st) (length args),
                  data := resize [] (data st) (length args)\<rparr>;
         minArrLen = fst (scanArrLen args);
         maxArrLen = snd (scanArrLen args)
     in if maxArrLen > maxArraySize then
          (st1, Some (SliceTooBig maxArrLen maxArraySize), h)
        else if \<not> PlSQLArrays st1 \<and> minArrLen \<noteq> -1 \<and> minArrLen \<noteq> maxArrLen then
          (st1, Some (DifferentLengths minArrLen maxArrLen), h)
        else
          let st2 = st1\<lparr>arrLen := minArrLen\<rparr>;
              doExecMany = (\<not> PlSQLArrays st2 \<and> arrLen st2 > 0);
              dataSliceLen = (if doExecMany then nat (arrLen st2) else 1)
          in case bindArgs env doExecMany dataSliceLen 0 args False st2 h of
               (named, st3, Some e, h3) \<Rightarrow> (st3, Some e, h3)
             | (named, st3, None, h3) \<Rightarrow>
                 if \<not> named then
                   (case bindByPos env (dpiStmt st3) 0 (view (vars st3)) h3 of
                      (e, h4) \<Rightarrow> (st3, e, h4))
                 else
                   (case bindByName env (dpiStmt st3) (view (vars st3)) 0 args h3 of
                      (e, h4) \<Rightarrow> (st3, e, h4)))"

section \<open>Result sets\<close>

text \<open>
  A result column. \<open>rows.Next\<close> reads the Oracle type of a column as \<open>col.Type\<close> and its
  native type as \<open>col.DefaultNumType\<close>; \<open>openRows\<close> fills them from the query info.
  The pointer to the object type, which the code only stores, is left out.
\<close>

record Column =
  col_Name :: string
  col_Type :: dpiTypeNum
  col_DefaultNumType :: dpiTypeNum
  col_Size :: "32 word"
  col_Precision :: "16 word"
  col_Scale :: byte
  col_Nullable :: bool

record rows =
  r_statement :: statement
  r_columns :: "Column list"
  r_bufferRowIndex :: "32 word"
  r_fetched :: "32 word"
  r_finished :: bool
  r_vars :: "dpiVar option list"
  r_data :: "dpiDataPtr list list"

definition emptyColumn :: Column where
  "emptyColumn = \<lparr>col_Name = [], col_Type = TYPE_NUM 0, col_DefaultNumType = TYPE_NUM 0,
     col_Size = 0, col_Precision = 0, col_Scale = 0, col_Nullable = False\<rparr>"

definition isCharType :: "dpiTypeNum \<Rightarrow> bool" where
  "isCharType t = (t = ORACLE_TYPE_VARCHAR \<or> t = ORACLE_TYPE_NVARCHAR \<or> t = ORACLE_TYPE_CHAR
     \<or> t = ORACLE_TYPE_NCHAR)"

text \<open>
  What \<open>openRows\<close> derives from the query info of a column: the native type (its first
  \<open>switch\<close>), the \<open>Column\<close>, and the buffer size (four times the client size for the
  character types).
\<close>

definition nativeTypeOf :: "dpiQueryInfo \<Rightarrow> dpiTypeNum" where
  "nativeTypeOf info =
    (if qi_defaultNativeTypeNum info = ORACLE_TYPE_NUMBER then NATIVE_TYPE_BYTES
     else if qi_defaultNativeTypeNum info = ORACLE_TYPE_DATE then NATIVE_TYPE_TIMESTAMP
     else qi_defaultNativeTypeNum info)"

definition columnOf :: "dpiQueryInfo \<Rightarrow> Column" where
  "columnOf info =
    \<lparr>col_Name = qi_name info, col_Type = qi_oracleTypeNum info,
     col_DefaultNumType = nativeTypeOf info, col_Size = qi_clientSizeInBytes info,
     col_Precision = qi_precision info, col_Scale = qi_scale info,
     col_Nullable = (qi_nullOk info = 1)\<rparr>"

definition columnBufSize :: "dpiQueryInfo \<Rightarrow> int" where
  "columnBufSize info =
    (if isCharType (qi_oracleTypeNum info) then uint (qi_clientSizeInBytes info) * 4
     else uint (qi_clientSizeInBytes info))"

text \<open>One round of the loop of \<open>openRows\<close>, for column \<open>i\<close>.\<close>

definition openColumn :: "native \<Rightarrow> statement \<Rightarrow> nat \<Rightarrow> rows \<Rightarrow> call list \<Rightarrow>
    rows \<times> error option \<times> call list" where
  "openColumn env st i r h =
    (let h1 = h @ [Stmt_getQueryInfo (dpiStmt st) (of_nat (i + 1))]
     in if \<not> dpi_success env h1 then
          let h2 = h1 @ [GetError] in (r, Some (Native (dpi_error env h2)), h2)
        else
          let info = dpi_queryInfo env h1;
              r1 = r\<lparr>r_columns := (r_columns r)[i := columnOf info]\<rparr>
          in case newVar env False (qi_oracleTypeNum info) (nativeTypeOf info) fetchRowCount
                    (columnBufSize info) h1 of
               (dv, dat, err, h2) \<Rightarrow>
                 let r2 = r1\<lparr>r_vars := (r_vars r1)[i := dv], r_data := (r_data r1)[i := dat]\<rparr>
                 in (case err of
                       Some e \<Rightarrow> (r2, Some e, h2)
                     | None \<Rightarrow>
                         let h3 = h2 @ [Stmt_define (dpiStmt st) (of_nat (i + 1)) dv]
                         in if \<not> dpi_success env h3 then
                              let h4 = h3 @ [GetError]
                              in (r2, Some (Native (dpi_error env h4)), h4)
                            else (r2, None, h3)))"

text \<open>The loop over the columns still to describe: it stops at the first error.\<close>

fun openColumns :: "native \<Rightarrow> statement \<Rightarrow> nat list \<Rightarrow> rows \<Rightarrow> call list \<Rightarrow>
    rows \<times> error option \<times> call list" where
  "openColumns env st [] r h = (r, None, h)"
| "openColumns env st (i # is) r h =
     (case openColumn env st i r h of
        (r1, Some e, h1) \<Rightarrow> (r1, Some e, h1)
      | (r1, None, h1) \<Rightarrow> openColumns env st is r1 h1)"

text \<open>\<open>openRows\<close> returns no rows with the error of a column, and the rows together with
  the error when only \<open>dpiStmt_addRef\<close> fails.\<close>

definition openRows :: "native \<Rightarrow> statement \<Rightarrow> nat \<Rightarrow> call list \<Rightarrow>
    rows option \<times> error option \<times> call list" where
  "openRows env st colCount h =
    (let h1 = h @ [Stmt_setFetchArraySize (dpiStmt st) (of_nat fetchRowCount)];
         r = \<lparr>r_statement = st, r_columns = replicate colCount emptyColumn,
              r_bufferRowIndex = 0, r_fetched = 0, r_finished = False,
              r_vars = replicate colCount None, r_data = replicate colCount []\<rparr>
     in case openColumns env st [0..<colCount] r h1 of
          (r1, Some e, h2) \<Rightarrow> (None, Some e, h2)
        | (r1, None, h2) \<Rightarrow>
            let h3 = h2 @ [Stmt_addRef (dpiStmt st)]
            in if \<not> dpi_success env h3 then
                 let h4 = h3 @ [GetError] in (Some r1, Some (Native (dpi_error env h4)), h4)
               else (Some r1, None, h3))"

subsection \<open>Fetching a row\<close>

datatype zone = Local | FixedZone byte byte int
  \<comment> \<open>\<open>time.FixedZone(fmt.Sprintf("%02d:%02d", h, m), offset)\<close>\<close>

text \<open>The values \<open>rows.Next\<close> stores into \<open>dest\<close>.\<close>

datatype driver_value =
    DNil
  | DString "byte list"
      \<comment> \<open>\<open>C.GoStringN(b.ptr, b.length)\<close>\<close>
  | DCInt64 "64 word" | DCUint64 "64 word" | DCFloat "32 word" | DCDouble "64 word"
      \<comment> \<open>the C values stored for a NUMBER column\<close>
  | DBytes "byte list"
  | DFloat32 "32 word" | DFloat64 "64 word" | DInt64 "64 word" | DUint64 "64 word"
  | DTime dpiTimestamp zone
      \<comment> \<open>\<open>time.Date\<close> of the fields of the timestamp, in the zone\<close>
  | DDuration "64 word"
  | DIntervalYM string
  | DLob dpiLobReader bool
  | DRows rows
  | DBool bool

definition isTimestampType :: "dpiTypeNum \<Rightarrow> bool" where
  "isTimestampType t = (t = ORACLE_TYPE_TIMESTAMP \<or> t = ORACLE_TYPE_TIMESTAMP_TZ
     \<or> t = ORACLE_TYPE_TIMESTAMP_LTZ \<or> t = NATIVE_TYPE_TIMESTAMP \<or> t = ORACLE_TYPE_DATE)"

definition isLobType :: "dpiTypeNum \<Rightarrow> bool" where
  "isLobType t = (t = ORACLE_TYPE_CLOB \<or> t = ORACLE_TYPE_NCLOB \<or> t = ORACLE_TYPE_BLOB
     \<or> t = ORACLE_TYPE_BFILE \<or> t = NATIVE_TYPE_LOB)"

text \<open>\<open>time.Duration\<close> is an \<open>int64\<close> of nanoseconds; the products wrap around.\<close>

definition durationDS :: "dpiIntervalDS \<Rightarrow> 64 word" where
  "durationDS ds =
     scast (ds_days ds) * 24 * 3600000000000 + scast (ds_hours ds) * 3600000000000
     + scast (ds_minutes ds) * 60000000000 + scast (ds_seconds ds) * 1000000000
     + scast (ds_fseconds ds)"

text \<open>
  The case of a nested cursor: a statement around the handle in the slot, whose columns
  are counted and opened.
\<close>

definition convertStmt :: "native \<Rightarrow> dpiData \<Rightarrow> call list \<Rightarrow> (error + driver_value) \<times> call list" where
  "convertStmt env d h =
    (let st = \<lparr>inTransaction = False, dpiStmt = getStmt d, query = [],
               data = \<lparr>sl_arr = [], sl_len = 0\<rparr>, vars = \<lparr>sl_arr = [], sl_len = 0\<rparr>,
               PlSQLArrays = False, arrLen = 0\<rparr>;
         h1 = h @ [Stmt_getNumQueryColumns (dpiStmt st)]
     in if \<not> dpi_success env h1 then
          let h2 = h1 @ [GetError] in (Inl (Native (dpi_error env h2)), h2)
        else
          (case openRows env st (unat (dpi_u32 env h1)) h1 of
             (r2, Some err, h2) \<Rightarrow> (Inl err, h2)
           | (None, None, h2) \<Rightarrow> (Inl (Panic ''nil rows''), h2)
           | (Some r2, None, h2) \<Rightarrow> (Inr (DRows r2), h2)))"

text \<open>
  The \<open>switch typ\<close> of \<open>rows.Next\<close> for a slot that is not null, in the order of the
  source's cases: the value for \<open>dest[i]\<close>, or the error the call returns.
\<close>

definition convert :: "native \<Rightarrow> Column \<Rightarrow> dpiData \<Rightarrow> call list \<Rightarrow>
    (error + driver_value) \<times> call list" where
  "convert env col d h =
    (let typ = col_Type col
     in if isCharType typ \<or> typ = ORACLE_TYPE_LONG_VARCHAR \<or> typ = NATIVE_TYPE_BYTES then
          (case getBytes d of
             None \<Rightarrow> (Inr (DString []), h)
           | Some b \<Rightarrow> (Inr (DString b), h))
        else if typ = ORACLE_TYPE_NUMBER then
          (if col_DefaultNumType col = NATIVE_TYPE_INT64 then (Inr (DCInt64 (getInt64 d)), h)
           else if col_DefaultNumType col = NATIVE_TYPE_UINT64 then (Inr (DCUint64 (getUint64 d)), h)
           else if col_DefaultNumType col = NATIVE_TYPE_FLOAT then (Inr (DCFloat (getFloat d)), h)
           else if col_DefaultNumType col = NATIVE_TYPE_DOUBLE then (Inr (DCDouble (getDouble d)), h)
           else (case getBytes d of
                   None \<Rightarrow> (Inr (DString []), h)
                 | Some b \<Rightarrow> (Inr (DString b), h)))
        else if typ = ORACLE_TYPE_ROWID \<or> typ = NATIVE_TYPE_ROWID \<or> typ = ORACLE_TYPE_RAW
                \<or> typ = ORACLE_TYPE_LONG_RAW then
          (case getBytes d of
             None \<Rightarrow> (Inr (DBytes []), h)
           | Some b \<Rightarrow> (Inr (DBytes b), h))
        else if typ = ORACLE_TYPE_NATIVE_FLOAT \<or> typ = NATIVE_TYPE_FLOAT then
          (Inr (DFloat32 (getFloat d)), h)
        else if typ = ORACLE_TYPE_NATIVE_DOUBLE \<or> typ = NATIVE_TYPE_DOUBLE then
          (Inr (DFloat64 (getDouble d)), h)
        else if typ = ORACLE_TYPE_NATIVE_INT \<or> typ = NATIVE_TYPE_INT64 then
          (Inr (DInt64 (getInt64 d)), h)
        else if typ = ORACLE_TYPE_NATIVE_UINT \<or> typ = NATIVE_TYPE_UINT64 then
          (Inr (DUint64 (getUint64 d)), h)
        else if isTimestampType typ then
          (let ts = getTimestamp d;
               tz = (if typ \<noteq> ORACLE_TYPE_TIMESTAMP \<and> typ \<noteq> ORACLE_TYPE_DATE then
                       FixedZone (ts_tzHourOffset ts) (ts_tzMinuteOffset ts)
                         (sint (ts_tzHourOffset ts) * 3600 + sint (ts_tzMinuteOffset ts) * 60)
                     else Local)
           in (Inr (DTime ts tz), h))
        else if typ = ORACLE_TYPE_INTERVAL_DS \<or> typ = NATIVE_TYPE_INTERVAL_DS then
          (Inr (DDuration (durationDS (getIntervalDS d))), h)
        else if typ = ORACLE_TYPE_INTERVAL_YM \<or> typ = NATIVE_TYPE_INTERVAL_YM then
          (Inr (DIntervalYM (Itoa (sint (fst (getIntervalYM d))) @ ''y''
                             @ Itoa (sint (snd (getIntervalYM d))) @ ''m'')), h)
        else if isLobType typ then
          (Inr (DLob \<lparr>dlr_dpiLob = getLOB d, dlr_offset = 0, dlr_finished = False\<rparr>
                  (typ = ORACLE_TYPE_CLOB \<or> typ = ORACLE_TYPE_NCLOB)), h)
        else if typ = ORACLE_TYPE_STMT \<or> typ = NATIVE_TYPE_STMT then
          convertStmt env d h
        else if typ = ORACLE_TYPE_BOOLEAN \<or> typ = NATIVE_TYPE_BOOLEAN then
          (Inr (DBool (getBool d = 1)), h)
        else (Inl (UnsupportedColumn typ), h))"

text \<open>
  The loop \<open>for i, col := range r.columns\<close>. The slot of column \<open>i\<close> is
  \<open>r.data[i][r.bufferRowIndex]\<close>; its content is what the library left there.
\<close>

fun fillDest :: "native \<Rightarrow> rows \<Rightarrow> nat \<Rightarrow> Column list \<Rightarrow> driver_value list \<Rightarrow> call list \<Rightarrow>
    driver_value list \<times> error option \<times> call list" where
  "fillDest env r i [] dest h = (dest, None, h)"
| "fillDest env r i (col # cols) dest h =
     (let j = unat (r_bufferRowIndex r)
      in if \<not> i < length (r_data r) \<or> \<not> j < length (r_data r ! i) then
           (dest, Some (Panic ''index out of range''), h)
         else
           let d = dpi_data env h i j
           in if isNull d = 1 then
                (if \<not> i < length dest then (dest, Some (Panic ''index out of range''), h)
                 else fillDest env r (Suc i) cols (dest[i := DNil]) h)
              else
                (case convert env col d h of
                   (Inl err, h1) \<Rightarrow> (dest, Some err, h1)
                 | (Inr v, h1) \<Rightarrow>
                     if \<not> i < length dest then (dest, Some (Panic ''index out of range''), h1)
                     else fillDest env r (Suc i) cols (dest[i := v]) h1))"

record next_result =
  nx_rows :: rows
  nx_dest :: "driver_value list"
  nx_err :: "error option"
  nx_calls :: "call list"

definition Next :: "native \<Rightarrow> rows \<Rightarrow> driver_value list \<Rightarrow> call list \<Rightarrow> next_result" where
  "Next env r dest h =
    (if r_finished r then
       \<lparr>nx_rows = r, nx_dest = dest, nx_err = Some EOF, nx_calls = h\<rparr>
     else
       let h1 = (if r_fetched r = 0
                 then h @ [Stmt_fetchRows (dpiStmt (r_statement r)) (of_nat fetchRowCount)]
                 else h);
           r1 = (if r_fetched r = 0
                 then r\<lparr>r_bufferRowIndex := dpi_bufferRowIndex env h1,
                        r_fetched := dpi_numRowsFetched env h1\<rparr>
                 else r)
       in if r_fetched r = 0 \<and> \<not> dpi_success env h1 then
            let h2 = h1 @ [GetError]
            in \<lparr>nx_rows = r1, nx_dest = dest, nx_err = Some (Native (dpi_error env h2)),
                nx_calls = h2\<rparr>
          else if r_fetched r = 0 \<and> r_fetched r1 = 0 then
            \<lparr>nx_rows = r1\<lparr>r_finished := (dpi_moreRows env h1 = 0)\<rparr>, nx_dest = dest,
             nx_err = Some EOF, nx_calls = h1\<rparr>
          else
            (case fillDest env r1 0 (r_columns r1) dest h1 of
               (dest1, Some err, h2) \<Rightarrow>
                 \<lparr>nx_rows = r1, nx_dest = dest1, nx_err = Some err, nx_calls = h2\<rparr>
             | (dest1, None, h2) \<Rightarrow>
                 \<lparr>nx_rows = r1\<lparr>r_bufferRowIndex := r_bufferRowIndex r1 + 1,
                               r_fetched := r_fetched r1 - 1\<rparr>,
                  nx_dest = dest1, nx_err = None, nx_calls = h2\<rparr>))"

section \<open>Executing a statement\<close>

text \<open>
  The state of the caller's context when the call is entered: \<open>ctx.Err()\<close> is nil while
  the context is live. The goroutine that \<open>ExecContext\<close> and \<open>QueryContext\<close> start
  only acts when the context is cancelled while the native call runs; the model follows
  the runs in which that does not happen. The mutex of the statement has no effect on a
  single caller.
\<close>

datatype Context = Live | CtxCanceled | CtxDeadlineExceeded

definition ctxErr :: "Context \<Rightarrow> error option" where
  "ctxErr ctx = (case ctx of Live \<Rightarrow> None | CtxCanceled \<Rightarrow> Some Canceled
                 | CtxDeadlineExceeded \<Rightarrow> Some DeadlineExceeded)"

text \<open>The \<open>driver.Result\<close> of \<open>ExecContext\<close>: nil, or \<open>driver.RowsAffected(count)\<close>.\<close>

record exec_result =
  ex_stmt :: statement
  ex_result :: "64 word option"
  ex_err :: "error option"
  ex_calls :: "call list"

definition ExecContext :: "native \<Rightarrow> statement \<Rightarrow> Context \<Rightarrow> NamedValue list \<Rightarrow> call list \<Rightarrow>
    exec_result" where
  "ExecContext env st ctx args h =
    (case ctxErr ctx of
       Some err \<Rightarrow> \<lparr>ex_stmt = st, ex_result = None, ex_err = Some err, ex_calls = h\<rparr>
     | None \<Rightarrow>
         (case bindVars env st args h of
            (st1, Some err, h1) \<Rightarrow>
              \<lparr>ex_stmt = st1, ex_result = None, ex_err = Some err, ex_calls = h1\<rparr>
          | (st1, None, h1) \<Rightarrow>
              let commit = (\<not> inTransaction st1);
                  h2 = (if \<not> PlSQLArrays st1 \<and> arrLen st1 > 0
                        then h1 @ [Stmt_executeMany (dpiStmt st1) commit (of_int (arrLen st1))]
                        else h1 @ [Stmt_execute (dpiStmt st1) commit])
              in if \<not> dpi_success env h2 then
                   let h3 = h2 @ [GetError]
                   in \<lparr>ex_stmt = st1, ex_result = None,
                       ex_err = Some (ExecuteFailed (dpi_error env h3) commit (arrLen st1)),
                       ex_calls = h3\<rparr>
                 else
                   let h3 = h2 @ [Stmt_getRowCount (dpiStmt st1)]
                   in if \<not> dpi_success env h3 then
                        \<lparr>ex_stmt = st1, ex_result = None, ex_err = None, ex_calls = h3\<rparr>
                      else
                        \<lparr>ex_stmt = st1, ex_result = Some (dpi_u64 env h3), ex_err = None,
                         ex_calls = h3\<rparr>))"

record query_result =
  qr_stmt :: statement
  qr_rows :: "rows option"
  qr_err :: "error option"
  qr_calls :: "call list"

definition QueryContext :: "native \<Rightarrow> statement \<Rightarrow> Context \<Rightarrow> NamedValue list \<Rightarrow> call list \<Rightarrow>
    query_result" where
  "QueryContext env st ctx args h =
    (case ctxErr ctx of
       Some err \<Rightarrow> \<lparr>qr_stmt = st, qr_rows = None, qr_err = Some err, qr_calls = h\<rparr>
     | None \<Rightarrow>
         (case bindVars env st args h of
            (st1, Some err, h1) \<Rightarrow>
              \<lparr>qr_stmt = st1, qr_rows = None, qr_err = Some err, qr_calls = h1\<rparr>
          | (st1, None, h1) \<Rightarrow>
              let h2 = h1 @ [Stmt_execute (dpiStmt st1) False]
              in if \<not> dpi_success env h2 then
                   let h3 = h2 @ [GetError]
                   in \<lparr>qr_stmt = st1, qr_rows = None,
                       qr_err = Some (QueryFailed (dpi_error env h3)), qr_calls = h3\<rparr>
                 else
                   (case openRows env st1 (unat (dpi_u32 env h2)) h2 of
                      (r, err, h3) \<Rightarrow>
                        \<lparr>qr_stmt = st1, qr_rows = r, qr_err = err, qr_calls = h3\<rparr>)))"

section \<open>Notions used to state the properties\<close>

text \<open>
  The lengths of the slice arguments of a binding set, in argument order: every argument
  whose value is a slice, byte slices excluded. \<open>lenStep\<close> is the update of the running
  minimum and maximum that the first loop of \<open>bindVars\<close> makes for one such length.
\<close>

definition sliceLens :: "NamedValue list \<Rightarrow> int list" where
  "sliceLens args =
     concat (map (\<lambda>a. if isByteSlice (Value a) then []
                       else case sliceLen (Value a) of None \<Rightarrow> [] | Some n \<Rightarrow> [int n]) args)"

definition lenStep :: "int \<Rightarrow> int \<times> int \<Rightarrow> int \<times> int" where
  "lenStep n mm = (if fst mm = -1 \<or> n < fst mm then n else fst mm,
                   if snd mm = -1 \<or> n > snd mm then n else snd mm)"

text \<open>
  The slot counts of the variable buffers allocated in a history, and histories that
  extend another one without allocating a buffer.
\<close>

fun newVarSize :: "call \<Rightarrow> nat option" where
  "newVarSize (NewVar isPlSQLArray typ natTyp arraySize bufSize) = Some arraySize"
| "newVarSize _ = None"

definition newVarSizes :: "call list \<Rightarrow> nat list" where
  "newVarSizes h = List.map_filter newVarSize h"

definition quiet :: "call list \<Rightarrow> call list \<Rightarrow> bool" where
  "quiet h h' = (take (length h) h' = h \<and> newVarSizes (drop (length h) h') = [])"

text \<open>
  The batch length and the batch mode as the specification words them: the length is the
  minimum slice length, or 1 when there is no slice argument, and the mode is active when
  the flag is unset and that length is positive.
\<close>

definition spec_batchLength :: "NamedValue list \<Rightarrow> int" where
  "spec_batchLength args = (if sliceLens args = [] then 1 else Min (set (sliceLens args)))"

definition spec_batchMode :: "bool \<Rightarrow> NamedValue list \<Rightarrow> bool" where
  "spec_batchMode flag args = (\<not> flag \<and> spec_batchLength args > 0)"

text \<open>
  The character length of a text, as the specification words the capacity rule: the number
  of characters of a UTF-8 encoded string, that is, of its bytes that are not
  continuation bytes (\<open>0x80\<close> to \<open>0xBF\<close>).
\<close>

definition charCount :: "string \<Rightarrow> nat" where
  "charCount s = length (filter (\<lambda>c. \<not> (128 \<le> (of_char c :: nat) \<and> (of_char c :: nat) < 192)) s)"

text \<open>A caller that asks a cursor for one row after the other, keeping the errors.\<close>

fun nextMany :: "native \<Rightarrow> rows \<Rightarrow> driver_value list list \<Rightarrow> call list \<Rightarrow>
    error option list \<times> rows \<times> call list" where
  "nextMany env r [] h = ([], r, h)"
| "nextMany env r (dest # dests) h =
     (let x = Next env r dest h
      in case nextMany env (nx_rows x) dests (nx_calls x) of
           (errs, r1, h1) \<Rightarrow> (nx_err x # errs, r1, h1))"

section \<open>Example inputs\<close>

text \<open>
  Concrete environments and objects on which the theorems below are evaluated.
  \<open>answering ok n c\<close> is a library whose calls succeed as \<open>ok\<close> says of the history,
  which leaves \<open>n\<close> in every 64-bit output parameter, and whose diagnostic has code \<open>c\<close>;
  a fetch finds no row but says that more are to come.
\<close>

definition nullData :: dpiData where
  "nullData = \<lparr>isNull = 1, getBytes = None, getInt64 = 0, getUint64 = 0, getFloat = 0,
     getDouble = 0,
     getTimestamp = \<lparr>ts_year = 0, ts_month = 0, ts_day = 0, ts_hour = 0, ts_minute = 0,
       ts_second = 0, ts_fsecond = 0, ts_tzHourOffset = 0, ts_tzMinuteOffset = 0\<rparr>,
     getIntervalDS = \<lparr>ds_days = 0, ds_hours = 0, ds_minutes = 0, ds_seconds = 0, ds_fseconds = 0\<rparr>,
     getIntervalYM = (0, 0), getLOB = None, getStmt = None, getBool = 0\<rparr>"

definition answering :: "(call list \<Rightarrow> bool) \<Rightarrow> 64 word \<Rightarrow> int \<Rightarrow> native" where
  "answering ok n c =
    \<lparr>dpi_success = ok, dpi_u64 = (\<lambda>h. n), dpi_u32 = (\<lambda>h. 0), dpi_bytes = (\<lambda>h. []),
     dpi_error = (\<lambda>h. \<lparr>Code = c, Message = []\<rparr>), dpi_var = length,
     dpi_lob = (\<lambda>h. Some (length h)),
     dpi_queryInfo = (\<lambda>h. \<lparr>qi_name = [], qi_oracleTypeNum = ORACLE_TYPE_NUMBER,
       qi_defaultNativeTypeNum = NATIVE_TYPE_INT64, qi_clientSizeInBytes = 0, qi_precision = 0,
       qi_scale = 0, qi_nullOk = 0\<rparr>),
     dpi_bufferRowIndex = (\<lambda>h. 0), dpi_numRowsFetched = (\<lambda>h. 0), dpi_moreRows = (\<lambda>h. 1),
     dpi_data = (\<lambda>h i j. nullData)\<rparr>"

definition reader0 :: dpiLobReader where
  "reader0 = \<lparr>dlr_dpiLob = Some 1, dlr_offset = 0, dlr_finished = False\<rparr>"

definition writer0 :: dpiLobWriter where
  "writer0 = \<lparr>dlw_dpiLob = Some 7, dlw_offset = 0, dlw_opened = False\<rparr>"

definition stmt0 :: statement where
  "stmt0 = \<lparr>inTransaction = False, dpiStmt = Some 1, query = ''select 1 from dual'',
     data = \<lparr>sl_arr = [], sl_len = 0\<rparr>, vars = \<lparr>sl_arr = [], sl_len = 0\<rparr>,
     PlSQLArrays = False, arrLen = 0\<rparr>"

definition arg :: "val \<Rightarrow> NamedValue" where
  "arg v = \<lparr>Name = [], Ordinal = 1, Value = v\<rparr>"

definition int64s :: "nat \<Rightarrow> NamedValue" where
  "int64s n = \<lparr>Name = [], Ordinal = 1, Value = VInt64s (replicate n 0)\<rparr>"

definition rows0 :: rows where
  "rows0 = \<lparr>r_statement = stmt0, r_columns = [], r_bufferRowIndex = 0, r_fetched = 0,
     r_finished = False, r_vars = [], r_data = []\<rparr>"

section \<open>Properties of the LOB stream adapters\<close>

text \<open>
  C4. A \<open>Read\<close> on a finished reader or with an empty buffer makes no native call. Every
  other \<open>Read\<close> issues exactly one native read, at the reader's running offset plus 1 and
  for the length of the buffer (followed by \<open>getError\<close> when it fails). A failure whose
  diagnostic has code 1403 is returned as \<open>io.EOF\<close>; any other failure is returned as an
  error that carries the locator, the offset before the read and the requested length.
\<close>

theorem Read_native_call:
  "let h1 = h @ [Lob_readBytes (dlr_dpiLob dlr) (dlr_offset dlr + 1) (of_nat (length p))];
       err = dpi_error env (h1 @ [GetError]);
       res = Read env (Some dlr) p h
   in (dlr_finished dlr \<or> p = [] \<longrightarrow> rd_calls res = h)
      \<and> (\<not> dlr_finished dlr \<and> p \<noteq> [] \<longrightarrow>
           rd_calls res = (if dpi_success env h1 then h1 else h1 @ [GetError])
           \<and> (\<not> dpi_success env h1 \<and> Code err = 1403 \<longrightarrow>
                 rd_err res = Some EOF \<and> rd_n res = sint (dpi_u64 env h1))
           \<and> (\<not> dpi_success env h1 \<and> Code err \<noteq> 1403 \<longrightarrow>
                 rd_err res = Some (LobReadFailed err (dlr_dpiLob dlr) (dlr_offset dlr) (length p))))"
  by (simp add: Read_def Let_def)

theorem Read_native_call_witness:
  "rd_calls (Read (answering (\<lambda>h. False) 0 1403) (Some reader0) [0, 0] [])
     = [Lob_readBytes (Some 1) 1 2, GetError]
   \<and> rd_err (Read (answering (\<lambda>h. False) 0 1403) (Some reader0) [0, 0] []) = Some EOF
   \<and> rd_err (Read (answering (\<lambda>h. False) 0 3113) (Some reader0) [0, 0] [])
     = Some (LobReadFailed \<lparr>Code = 3113, Message = []\<rparr> (Some 1) 0 2)"
  using Read_native_call [where dlr = reader0 and p = "[0, 0]" and h = "[]"
      and env = "answering (\<lambda>h. False) 0 1403"]
    Read_native_call [where dlr = reader0 and p = "[0, 0]" and h = "[]"
      and env = "answering (\<lambda>h. False) 0 3113"]
  by (simp add: Let_def reader0_def answering_def)

text \<open>
  A reader that is finished answers \<open>io.EOF\<close> without a native call and stays as it is;
  a read that fails with code 1403 leaves the reader finished.
\<close>

lemma Read_finished:
  "dlr_finished dlr \<Longrightarrow>
     Read env (Some dlr) p h =
       \<lparr>rd_reader = Some dlr, rd_buf = p, rd_n = 0, rd_err = Some EOF, rd_calls = h\<rparr>"
  by (simp add: Read_def)

lemma Read_1403_finishes:
  assumes "\<not> dlr_finished dlr" "p \<noteq> []"
    and "\<not> dpi_success env
           (h @ [Lob_readBytes (dlr_dpiLob dlr) (dlr_offset dlr + 1) (of_nat (length p))])"
    and "Code (dpi_error env
           (h @ [Lob_readBytes (dlr_dpiLob dlr) (dlr_offset dlr + 1) (of_nat (length p)),
                 GetError])) = 1403"
  shows "\<exists>dlr'. rd_reader (Read env (Some dlr) p h) = Some dlr' \<and> dlr_finished dlr'"
  using assms by (simp add: Read_def Let_def)

text \<open>
  A native read that succeeds with 0 bytes is returned as \<open>io.EOF\<close> too, but the reader
  is left exactly as it was, not finished.
\<close>

lemma Read_empty_read_not_finished:
  assumes "\<not> dlr_finished dlr" and "p \<noteq> []"
    and "dpi_success env
           (h @ [Lob_readBytes (dlr_dpiLob dlr) (dlr_offset dlr + 1) (of_nat (length p))])"
    and "dpi_u64 env
           (h @ [Lob_readBytes (dlr_dpiLob dlr) (dlr_offset dlr + 1) (of_nat (length p))]) = 0"
  shows "rd_err (Read env (Some dlr) p h) = Some EOF
         \<and> rd_reader (Read env (Some dlr) p h) = Some dlr"
  using assms by (simp add: Read_def Let_def)

text \<open>
  C5. The other way in which \<open>Read\<close> signals end-of-stream, a native read that succeeds
  with 0 bytes, does not mark the reader finished. Here the first \<open>Read\<close> returns
  \<open>io.EOF\<close> and leaves the reader as it was; the second \<open>Read\<close> calls the library again
  and, the library failing this time, returns an error instead of \<open>io.EOF\<close>.
\<close>

theorem Read_eof_on_empty_read_not_sticky:
  "let env = answering (\<lambda>h. length h < 2) 0 3113;
       p = [0, 0, 0, 0];
       first = Read env (Some reader0) p [];
       second = Read env (rd_reader first) p (rd_calls first)
   in rd_err first = Some EOF
      \<and> rd_calls first = [Lob_readBytes (Some 1) 1 4]
      \<and> rd_reader first = Some reader0
      \<and> rd_calls second = [Lob_readBytes (Some 1) 1 4, Lob_readBytes (Some 1) 1 4, GetError]
      \<and> rd_err second = Some (LobReadFailed \<lparr>Code = 3113, Message = []\<rparr> (Some 1) 0 4)"
  by (simp add: Read_def Let_def reader0_def answering_def)

text \<open>
  C7. When \<open>dpiLob_openResource\<close> fails, \<open>Write\<close> returns the native error but keeps its
  locator: a later \<open>Close\<close> flushes and closes that locator, and a later \<open>Write\<close> opens
  it again.
\<close>

theorem Write_open_failure_keeps_locator:
  "let env = answering (\<lambda>h. False) 0 22288;
       res = Write env writer0 [1] [];
       closed = Close env (Some (wr_writer res)) (wr_calls res)
   in wr_err res = Some (OpenResourcesFailed \<lparr>Code = 22288, Message = []\<rparr> (Some 7))
      \<and> dlw_dpiLob (wr_writer res) = Some 7
      \<and> wr_calls res = [Lob_openResource (Some 7), GetError]
      \<and> snd (snd closed) = [Lob_openResource (Some 7), GetError, Lob_flushBuffer (Some 7),
            Lob_closeResource (Some 7), GetError]
      \<and> wr_calls (Write env (wr_writer res) [1] (wr_calls res))
          = [Lob_openResource (Some 7), GetError, Lob_openResource (Some 7), GetError]"
  by (simp add: Write_def Close_def Let_def writer0_def answering_def)

text \<open>Whatever the environment, a failed open leaves the writer as it was.\<close>

lemma Write_open_failure:
  assumes "\<not> dlw_opened dlw"
    and "\<not> dpi_success env (h @ [Lob_openResource (dlw_dpiLob dlw)])"
  shows "wr_writer (Write env dlw p h) = dlw
         \<and> (\<exists>e. wr_err (Write env dlw p h) = Some (OpenResourcesFailed e (dlw_dpiLob dlw)))"
  using assms by (simp add: Write_def Let_def)

text \<open>
  The path of a failed native write does discard the locator: the writer's locator is nil
  afterwards, the error carries the native diagnostic, and \<open>Close\<close> does nothing.
\<close>

lemma Write_failure_discards_locator:
  assumes "dlw_opened dlw \<or> dpi_success env (h @ [Lob_openResource (dlw_dpiLob dlw)])"
    and "p \<noteq> []"
    and "\<not> dpi_success env
           ((if dlw_opened dlw then h else h @ [Lob_openResource (dlw_dpiLob dlw)])
            @ [Lob_writeBytes (dlw_dpiLob dlw) (dlw_offset dlw + 1) p (of_nat (length p))])"
  shows "dlw_dpiLob (wr_writer (Write env dlw p h)) = None
         \<and> (\<exists>e. wr_err (Write env dlw p h)
                  = Some (WriteBytesFailed e (dlw_dpiLob dlw) (dlw_offset dlw) (of_nat (length p))))
         \<and> Close env (Some (wr_writer (Write env dlw p h))) h'
             = (Some (wr_writer (Write env dlw p h)), None, h')"
  using assms by (auto simp add: Write_def Close_def Let_def)

section \<open>Properties of execution\<close>

text \<open>
  C10. When the caller's context is already cancelled or past its deadline,
  \<open>ExecContext\<close> and \<open>QueryContext\<close> return the context's error at once: no native call
  is made (the history is unchanged), nothing is bound, and the statement is left exactly
  as it was.
\<close>

theorem cancelled_context_returns_at_once:
  "ctx \<noteq> Live \<Longrightarrow>
     ExecContext env st ctx args h =
       \<lparr>ex_stmt = st, ex_result = None, ex_err = ctxErr ctx, ex_calls = h\<rparr>
     \<and> QueryContext env st ctx args h =
       \<lparr>qr_stmt = st, qr_rows = None, qr_err = ctxErr ctx, qr_calls = h\<rparr>
     \<and> ctxErr ctx \<noteq> None"
  by (cases ctx) (simp_all add: ExecContext_def QueryContext_def ctxErr_def)

theorem cancelled_context_returns_at_once_witness:
  "ExecContext (answering (\<lambda>h. True) 0 0) stmt0 CtxCanceled [] []
     = \<lparr>ex_stmt = stmt0, ex_result = None, ex_err = Some Canceled, ex_calls = []\<rparr>
   \<and> QueryContext (answering (\<lambda>h. True) 0 0) stmt0 CtxDeadlineExceeded [] []
     = \<lparr>qr_stmt = stmt0, qr_rows = None, qr_err = Some DeadlineExceeded, qr_calls = []\<rparr>"
  using cancelled_context_returns_at_once [where ctx = CtxCanceled and st = stmt0
      and env = "answering (\<lambda>h. True) 0 0" and args = "[]" and h = "[]"]
    cancelled_context_returns_at_once [where ctx = CtxDeadlineExceeded and st = stmt0
      and env = "answering (\<lambda>h. True) 0 0" and args = "[]" and h = "[]"]
  by (simp add: ctxErr_def)

section \<open>Properties of the binder\<close>

subsection \<open>The scan of the slice lengths\<close>

text \<open>
  The first loop of \<open>bindVars\<close> computes the least and the greatest length of the slice
  arguments; both are \<open>-1\<close> exactly when there is none.
\<close>

lemma scanStep_lenStep:
  "scanStep a mm = fold lenStep (sliceLens [a]) mm"
  by (cases mm) (simp add: scanStep_def sliceLens_def lenStep_def Let_def split: option.split)

lemma sliceLens_Cons: "sliceLens (a # as) = sliceLens [a] @ sliceLens as"
  by (simp add: sliceLens_def)

lemma fold_scanStep: "fold scanStep args mm = fold lenStep (sliceLens args) mm"
proof (induction args arbitrary: mm)
  case Nil
  show ?case by (simp add: sliceLens_def)
next
  case (Cons a as)
  have "fold scanStep (a # as) mm = fold scanStep as (scanStep a mm)" by simp
  also have "\<dots> = fold lenStep (sliceLens as) (fold lenStep (sliceLens [a]) mm)"
    by (simp add: Cons.IH scanStep_lenStep)
  also have "\<dots> = fold lenStep (sliceLens (a # as)) mm"
    by (subst (2) sliceLens_Cons) simp
  finally show ?case .
qed

lemma sliceLens_nonneg: "x \<in> set (sliceLens args) \<Longrightarrow> 0 \<le> x"
  by (auto simp: sliceLens_def split: if_splits option.splits)

lemma fold_lenStep_seen:
  assumes "\<forall>x\<in>set xs. 0 \<le> x" "0 \<le> mn" "0 \<le> mx"
  shows "fold lenStep xs (mn, mx) = (Min (insert mn (set xs)), Max (insert mx (set xs)))"
  using assms
proof (induction xs arbitrary: mn mx)
  case Nil
  show ?case by simp
next
  case (Cons x xs)
  have step: "lenStep x (mn, mx) = (min x mn, max x mx)"
    using Cons.prems by (auto simp: lenStep_def)
  have "fold lenStep (x # xs) (mn, mx) = fold lenStep xs (min x mn, max x mx)"
    by (simp add: step)
  also have "\<dots> = (Min (insert (min x mn) (set xs)), Max (insert (max x mx) (set xs)))"
    using Cons.prems by (intro Cons.IH) auto
  also have "Min (insert (min x mn) (set xs)) = Min (insert mn (set (x # xs)))"
    by (cases "xs = []") (simp_all add: min.commute min.left_commute)
  also have "Max (insert (max x mx) (set xs)) = Max (insert mx (set (x # xs)))"
    by (cases "xs = []") (simp_all add: max.commute max.left_commute)
  finally show ?case .
qed

lemma fold_lenStep_start:
  assumes "\<forall>x\<in>set xs. 0 \<le> x"
  shows "fold lenStep xs (-1, -1)
           = (if xs = [] then (-1, -1) else (Min (set xs), Max (set xs)))"
proof (cases xs)
  case Nil
  then show ?thesis by simp
next
  case (Cons x ys)
  have "lenStep x (-1, -1) = (x, x)" by (simp add: lenStep_def)
  then have "fold lenStep xs (-1, -1) = fold lenStep ys (x, x)" using Cons by simp
  also have "\<dots> = (Min (insert x (set ys)), Max (insert x (set ys)))"
    using assms Cons by (intro fold_lenStep_seen) auto
  finally show ?thesis using Cons by simp
qed

lemma scanArrLen_Min_Max:
  "scanArrLen args = (if sliceLens args = [] then (-1, -1)
                      else (Min (set (sliceLens args)), Max (set (sliceLens args))))"
  unfolding scanArrLen_def fold_scanStep
  by (rule fold_lenStep_start) (simp add: sliceLens_nonneg)

subsection \<open>Size limit and shape mismatch\<close>

text \<open>
  C2. When the greatest slice-argument length exceeds 1024, \<open>bindVars\<close> returns the
  size-limit error, which carries that length and the limit. It does so whatever the flag
  \<open>PlSQLArrays\<close> and whether or not the lengths agree (the test precedes the one for
  the shape), and without a native call: the history is returned as it was, so no variable
  buffer has been allocated. The statement has only had \<open>vars\<close> and \<open>data\<close> resized.
\<close>

theorem bindVars_size_limit:
  assumes "sliceLens args \<noteq> []" and "Max (set (sliceLens args)) > 1024"
  shows "bindVars env st args h =
           (st\<lparr>vars := resize None (vars st) (length args),
               data := resize [] (data st) (length args)\<rparr>,
            Some (SliceTooBig (Max (set (sliceLens args))) 1024), h)"
  using assms by (simp add: bindVars_def scanArrLen_Min_Max maxArraySize_def Let_def)

theorem bindVars_size_limit_witness:
  "fst (snd (bindVars (answering (\<lambda>h. True) 0 0) stmt0 [int64s 1025] []))
     = Some (SliceTooBig 1025 1024)
   \<and> snd (snd (bindVars (answering (\<lambda>h. True) 0 0) stmt0 [int64s 1025] [])) = []"
proof -
  have l: "sliceLens [int64s 1025] = [1025]"
    by (simp add: sliceLens_def int64s_def isByteSlice_def)
  show ?thesis
    using bindVars_size_limit [where args = "[int64s 1025]" and st = stmt0 and h = "[]"
        and env = "answering (\<lambda>h. True) 0 0"]
    by (simp add: l)
qed

lemma sliceLens_int64s: "sliceLens [int64s 2, int64s 1025] = [2, 1025]"
  by (simp add: sliceLens_def int64s_def isByteSlice_def)

text \<open>
  C1. Two slice arguments of unequal lengths do not always give the shape-mismatch error:
  when one of them is longer than 1024, the size-limit test, which comes first, answers.
\<close>

theorem bindVars_shape_mismatch_counterexample:
  "\<not> PlSQLArrays stmt0
   \<and> sliceLens [int64s 2, int64s 1025] = [2, 1025]
   \<and> fst (snd (bindVars (answering (\<lambda>h. True) 0 0) stmt0 [int64s 2, int64s 1025] []))
       = Some (SliceTooBig 1025 1024)"
  by (simp add: sliceLens_int64s bindVars_def scanArrLen_Min_Max maxArraySize_def Let_def stmt0_def)

text \<open>
  C1, as the code has it. When the flag \<open>PlSQLArrays\<close> is unset, two slice arguments
  (byte slices excluded) have unequal lengths and no slice argument is longer than 1024,
  \<open>bindVars\<close> returns the shape-mismatch error, which carries the least and the greatest
  of the lengths; the history is returned as it was, so no variable buffer has been
  allocated.
\<close>

theorem bindVars_shape_mismatch:
  assumes "\<not> PlSQLArrays st"
    and "m \<in> set (sliceLens args)" and "n \<in> set (sliceLens args)" and "m \<noteq> n"
    and "Max (set (sliceLens args)) \<le> 1024"
  shows "bindVars env st args h =
           (st\<lparr>vars := resize None (vars st) (length args),
               data := resize [] (data st) (length args)\<rparr>,
            Some (DifferentLengths (Min (set (sliceLens args))) (Max (set (sliceLens args)))), h)"
proof -
  define mn where "mn = Min (set (sliceLens args))"
  define mx where "mx = Max (set (sliceLens args))"
  have ne: "sliceLens args \<noteq> []" using assms(2) by auto
  have scan: "scanArrLen args = (mn, mx)"
    using ne by (simp add: scanArrLen_Min_Max mn_def mx_def)
  have "mn \<le> m" "m \<le> mx" "mn \<le> n" "n \<le> mx"
    using assms(2,3) by (simp_all add: mn_def mx_def)
  then have diff: "mn \<noteq> mx" using assms(4) by auto
  have "Min (set (sliceLens args)) \<in> set (sliceLens args)"
    using ne by (intro Min_in) simp_all
  then have pos: "mn \<noteq> -1" using sliceLens_nonneg [of mn args] by (auto simp: mn_def)
  have small: "\<not> mx > maxArraySize" using assms(5) by (simp add: mx_def maxArraySize_def)
  have "bindVars env st args h =
          (st\<lparr>vars := resize None (vars st) (length args),
              data := resize [] (data st) (length args)\<rparr>,
           Some (DifferentLengths mn mx), h)"
    using diff pos small assms(1) by (simp add: bindVars_def scan Let_def)
  then show ?thesis by (simp add: mn_def mx_def)
qed

theorem bindVars_shape_mismatch_witness:
  "fst (snd (bindVars (answering (\<lambda>h. True) 0 0) stmt0 [int64s 2, int64s 3] []))
     = Some (DifferentLengths 2 3)
   \<and> snd (snd (bindVars (answering (\<lambda>h. True) 0 0) stmt0 [int64s 2, int64s 3] [])) = []"
proof -
  have l: "sliceLens [int64s 2, int64s 3] = [2, 3]"
    by (simp add: sliceLens_def int64s_def isByteSlice_def)
  show ?thesis
    using bindVars_shape_mismatch [where args = "[int64s 2, int64s 3]" and st = stmt0
        and h = "[]" and env = "answering (\<lambda>h. True) 0 0" and m = 2 and n = 3]
    by (simp add: l stmt0_def)
qed

subsection \<open>Histories that allocate no buffer\<close>

text \<open>
  The setters, and the attaching of the variables to the statement, make native calls but
  never allocate a variable buffer.
\<close>

lemma newVarSizes_append [simp]: "newVarSizes (h @ k) = newVarSizes h @ newVarSizes k"
  by (simp add: newVarSizes_def map_filter_def)

lemma newVarSizes_Nil [simp]: "newVarSizes [] = []"
  by (simp add: newVarSizes_def map_filter_def)

lemma newVarSizes_Cons [simp]: "newVarSizes (c # h) = (case newVarSize c of None \<Rightarrow> [] | Some n \<Rightarrow> [n]) @ newVarSizes h"
  by (simp add: newVarSizes_def map_filter_def split: option.split)

lemma quiet_append [simp]: "quiet h (h @ ext) = (newVarSizes ext = [])"
  by (simp add: quiet_def)

lemma quiet_refl [simp]: "quiet h h"
  by (simp add: quiet_def)

lemma quiet_trans: "quiet h h1 \<Longrightarrow> quiet h1 h2 \<Longrightarrow> quiet h h2"
proof -
  assume a: "quiet h h1" and b: "quiet h1 h2"
  from a obtain e1 where e1: "h1 = h @ e1" "newVarSizes e1 = []"
    unfolding quiet_def by (metis append_take_drop_id)
  from b obtain e2 where e2: "h2 = h1 @ e2" "newVarSizes e2 = []"
    unfolding quiet_def by (metis append_take_drop_id)
  show "quiet h h2" using e1 e2 by (simp add: quiet_def)
qed

lemma quiet_snoc: "newVarSize c = None \<Longrightarrow> quiet h (h @ [c])"
  by simp

lemma quiet_snoc': "quiet h h1 \<Longrightarrow> newVarSize c = None \<Longrightarrow> quiet h (h1 @ [c])"
  using quiet_trans quiet_snoc by blast

lemma quietD: "quiet h h' \<Longrightarrow> \<exists>ext. h' = h @ ext \<and> newVarSizes ext = []"
  unfolding quiet_def by (metis append_take_drop_id)

lemma quiet_sizes: "quiet h h' \<Longrightarrow> newVarSizes h' = newVarSizes h"
  by (auto dest: quietD)

lemma quiet_take: "quiet h h' \<Longrightarrow> take (length h) h' = h"
  by (simp add: quiet_def)

lemma dataSetNumber_quiet: "quiet h (snd (dataSetNumber d v h))"
  by (cases v) (simp_all add: quiet_snoc)

lemma setFromBytes_quiet: "quiet h (snd (setFromBytes dv pos x h))"
  by (simp add: setFromBytes_def quiet_snoc)

lemma dataSetBytes_quiet: "quiet h (snd (dataSetBytes dv pos v h))"
  by (cases v) (simp_all add: setFromBytes_quiet)

lemma dataSetBool_quiet: "quiet h (snd (dataSetBool d v h))"
  by (cases v) (simp_all add: quiet_snoc)

lemma dataSetTimestamp_quiet: "quiet h (snd (dataSetTimestamp d v h))"
  by (cases v) (simp_all add: quiet_snoc Let_def)

lemma Write_quiet: "quiet h (wr_calls (Write env lw p h))"
  by (simp add: Write_def Let_def quiet_snoc quiet_snoc')

lemma Close_quiet: "quiet h (snd (snd (Close env w h)))"
  by (simp add: Close_def Let_def quiet_snoc quiet_snoc' split: option.split)

lemma copyBuffer_quiet: "quiet h (snd (snd (copyBuffer env lw cs h)))"
proof (induction cs arbitrary: lw h)
  case Nil
  show ?case by simp
next
  case (Cons c cs)
  let ?r = "Write env lw c h"
  have w: "quiet h (wr_calls ?r)" by (rule Write_quiet)
  have "quiet h (snd (snd (copyBuffer env (wr_writer ?r) cs (wr_calls ?r))))"
    using w Cons.IH by (rule quiet_trans)
  then show ?case using w by (simp add: Let_def split: option.split)
qed

lemma lob_tail_quiet:
  assumes "quiet h h2"
  shows "quiet h (snd (case copyBuffer env lw cs h2 of
            (lw1, err, h3) \<Rightarrow>
              if panicked err then (err, h3)
              else (case Close env (Some lw1) h3 of
                      (lw2, closeErr, h4) \<Rightarrow>
                        (g closeErr err, h4 @ [Var_setFromLob dv p lob]))))"
proof -
  obtain lw1 err h3 where cb: "copyBuffer env lw cs h2 = (lw1, err, h3)"
    by (metis prod_cases3)
  obtain lw2 closeErr h4 where cl: "Close env (Some lw1) h3 = (lw2, closeErr, h4)"
    by (metis prod_cases3)
  have q3: "quiet h2 h3" using copyBuffer_quiet [of h2 env lw cs] cb by simp
  have q4: "quiet h3 h4" using Close_quiet [of h3 env "Some lw1"] cl by simp
  have h3: "quiet h h3" using assms q3 by (rule quiet_trans)
  then have "quiet h h4" using q4 by (rule quiet_trans)
  then have "quiet h (h4 @ [Var_setFromLob dv p lob])"
    by (rule quiet_snoc') simp
  then show ?thesis using h3 by (simp add: cb cl)
qed

lemma dataSetLOB_quiet: "quiet h (snd (dataSetLOB env dv pos d v h))"
proof (cases v)
  case (VLob L)
  show ?thesis
  proof (cases "Reader L")
    case None
    then show ?thesis using VLob by (simp add: dataSetLOB_def)
  next
    case (Some content)
    then show ?thesis using VLob
      unfolding dataSetLOB_def Let_def by (simp add: lob_tail_quiet)
  qed
qed (simp_all add: dataSetLOB_def)

lemma applySet_quiet: "quiet h (snd (applySet env setter dv pos d v h))"
  by (cases setter)
    (simp_all add: applySet_def dataSetLOB_quiet dataSetNumber_quiet dataSetBool_quiet
      dataSetBytes_quiet dataSetTimestamp_quiet)

lemma setSlots_quiet: "quiet h (snd (setSlots env setter dv dat i rArg js h))"
proof (induction js arbitrary: h)
  case Nil
  show ?case by simp
next
  case (Cons j js)
  show ?case
  proof (cases "j < length dat")
    case False
    then show ?thesis by simp
  next
    case True
    show ?thesis
    proof (cases "index rArg j")
      case None
      then show ?thesis using True by simp
    next
      case (Some x)
      obtain e h1 where a: "applySet env setter dv j (dat ! j) x h = (e, h1)" by fastforce
      have q: "quiet h h1" using applySet_quiet [of h env setter dv j "dat ! j" x] a by simp
      have "quiet h (snd (setSlots env setter dv dat i rArg js h1))"
        using q Cons.IH by (rule quiet_trans)
      then show ?thesis
        using True Some a q by (cases e) simp_all
    qed
  qed
qed


lemma newVar_calls:
  "newVar env p typ natTyp n b h = (dv, dat, err, h1) \<Longrightarrow>
     take (Suc (length h)) h1 = h @ [NewVar p typ natTyp n b]
     \<and> newVarSizes h1 = newVarSizes h @ [n]
     \<and> (err = None \<longrightarrow> length dat = n)"
  by (auto simp: newVar_def Let_def split: if_splits)

text \<open>One round of the loop leaves the statement's other fields alone.\<close>

lemma bindArg_fields:
  "bindArg env m n i a st h = (st1, e, h1) \<Longrightarrow>
     arrLen st1 = arrLen st \<and> PlSQLArrays st1 = PlSQLArrays st \<and> dpiStmt st1 = dpiStmt st
     \<and> inTransaction st1 = inTransaction st"
  by (auto simp: bindArg_def Let_def split: sum.splits option.splits prod.splits if_splits)

text \<open>After its \<open>newVar\<close>, a round of the loop allocates nothing more.\<close>

lemma bindArg_after_newVar:
  assumes v: "unwrapOut (Value a) = Inr v"
    and ts: "typeSwitch v = Some (ty, natTyp, bufSize, setter)"
    and nv: "newVar env (PlSQLArrays st) ty natTyp n bufSize h = (dv, dat, err, h0)"
  shows "quiet h0 (snd (snd (bindArg env m n i a st h)))"
proof (cases err)
  case (Some e)
  then show ?thesis using v ts nv by (simp add: bindArg_def)
next
  case None
  show ?thesis
  proof (cases m)
    case False
    then show ?thesis
      using v ts nv None applySet_quiet [of h0 env setter dv 0 "dat ! 0" "Value a"]
      by (auto simp: bindArg_def Let_def split: if_splits prod.splits option.splits)
  next
    case True
    then show ?thesis
      using v ts nv None setSlots_quiet [of h0 env setter dv dat i "Value a" "[0..<n]"]
      by (auto simp: bindArg_def Let_def split: prod.splits)
  qed
qed

text \<open>A round of the loop allocates at most one buffer, of \<open>n\<close> slots, and exactly one
  when it succeeds.\<close>

lemma bindArg_sizes_any:
  assumes "bindArg env m n i a st h = (st1, e, h1)"
  shows "\<exists>k. k \<le> 1 \<and> (e = None \<longrightarrow> k = 1) \<and> newVarSizes h1 = newVarSizes h @ replicate k n"
proof (cases "unwrapOut (Value a)")
  case (Inl p)
  then have "h1 = h" "e \<noteq> None" using assms by (auto simp: bindArg_def)
  then show ?thesis by (intro exI [of _ 0]) simp
next
  case (Inr v)
  show ?thesis
  proof (cases "typeSwitch v")
    case None
    then have "h1 = h" "e \<noteq> None" using assms Inr by (auto simp: bindArg_def)
    then show ?thesis by (intro exI [of _ 0]) simp
  next
    case (Some t)
    obtain ty natTyp bufSize setter where t: "t = (ty, natTyp, bufSize, setter)"
      by (metis prod_cases4)
    obtain dv dat err h0 where nv:
      "newVar env (PlSQLArrays st) ty natTyp n bufSize h = (dv, dat, err, h0)"
      by (metis prod_cases4)
    have "quiet h0 (snd (snd (bindArg env m n i a st h)))"
      using Inr Some t nv by (intro bindArg_after_newVar) simp_all
    then have "quiet h0 h1" using assms by simp
    then have "newVarSizes h1 = newVarSizes h @ [n]"
      using newVar_calls [OF nv] by (simp add: quiet_sizes)
    then show ?thesis by (intro exI [of _ 1]) simp
  qed
qed

lemma bindArg_sizes:
  assumes "bindArg env m n i a st h = (st1, None, h1)"
  shows "newVarSizes h1 = newVarSizes h @ [n]"
  using bindArg_sizes_any [OF assms] by auto

lemma bindArgs_fields:
  "bindArgs env m n i args named st h = (named1, st1, e, h1) \<Longrightarrow>
     arrLen st1 = arrLen st \<and> PlSQLArrays st1 = PlSQLArrays st \<and> dpiStmt st1 = dpiStmt st
     \<and> inTransaction st1 = inTransaction st"
proof (induction args arbitrary: i named st h)
  case Nil
  then show ?case by simp
next
  case (Cons a as)
  obtain st0 e0 h0 where b: "bindArg env m n i a st h = (st0, e0, h0)" by (metis prod_cases3)
  note f = bindArg_fields [OF b]
  show ?case
  proof (cases e0)
    case (Some err)
    then show ?thesis using Cons.prems b f by (simp add: Let_def)
  next
    case None
    then have "bindArgs env m n (Suc i) as (if \<not> named then Name a \<noteq> [] else named) st0 h0
                 = (named1, st1, e, h1)"
      using Cons.prems b by (simp add: Let_def)
    from Cons.IH [OF this] f show ?thesis by simp
  qed
qed

lemma bindArgs_sizes:
  "bindArgs env m n i args named st h = (named1, st1, None, h1) \<Longrightarrow>
     newVarSizes h1 = newVarSizes h @ replicate (length args) n"
proof (induction args arbitrary: i named st h)
  case Nil
  then show ?case by simp
next
  case (Cons a as)
  obtain st0 e0 h0 where b: "bindArg env m n i a st h = (st0, e0, h0)" by (metis prod_cases3)
  show ?case
  proof (cases e0)
    case (Some err)
    then show ?thesis using Cons.prems b by (simp add: Let_def)
  next
    case None
    then have r: "bindArgs env m n (Suc i) as (if \<not> named then Name a \<noteq> [] else named) st0 h0
                 = (named1, st1, None, h1)"
      using Cons.prems b by (simp add: Let_def)
    have "newVarSizes h0 = newVarSizes h @ [n]" using b None bindArg_sizes by blast
    with Cons.IH [OF r] show ?thesis by (simp add: replicate_append_same)
  qed
qed

lemma bindArgs_sizes_any:
  "bindArgs env m n i args named st h = (named1, st1, e, h1) \<Longrightarrow>
     \<exists>k. k \<le> length args \<and> (e = None \<longrightarrow> k = length args)
       \<and> newVarSizes h1 = newVarSizes h @ replicate k n"
proof (induction args arbitrary: i named st h)
  case Nil
  then show ?case by simp
next
  case (Cons a as)
  obtain st0 e0 h0 where b: "bindArg env m n i a st h = (st0, e0, h0)" by (metis prod_cases3)
  obtain k0 where k0: "k0 \<le> 1" "e0 = None \<longrightarrow> k0 = 1"
      "newVarSizes h0 = newVarSizes h @ replicate k0 n"
    using bindArg_sizes_any [OF b] by blast
  show ?case
  proof (cases e0)
    case (Some err)
    then have "h1 = h0" "e \<noteq> None" using Cons.prems b by (auto simp: Let_def)
    then show ?thesis using k0 by (intro exI [of _ k0]) auto
  next
    case None
    then have r: "bindArgs env m n (Suc i) as (if \<not> named then Name a \<noteq> [] else named) st0 h0
                 = (named1, st1, e, h1)"
      using Cons.prems b by (simp add: Let_def)
    obtain k where k: "k \<le> length as" "e = None \<longrightarrow> k = length as"
        "newVarSizes h1 = newVarSizes h0 @ replicate k n"
      using Cons.IH [OF r] by blast
    have "k0 = 1" using None k0 by simp
    then have "newVarSizes h1 = newVarSizes h @ replicate (Suc k) n"
      using k k0 by (simp add: replicate_append_same)
    then show ?thesis using k by (intro exI [of _ "Suc k"]) simp
  qed
qed

lemma bindByPos_quiet: "quiet h (snd (bindByPos env stmt i vs h))"
proof (induction vs arbitrary: i h)
  case Nil
  show ?case by simp
next
  case (Cons v vs)
  let ?h1 = "h @ [Stmt_bindByPos stmt (of_nat (i + 1)) v]"
  have "quiet h ?h1" by simp
  then have "quiet h (snd (bindByPos env stmt (Suc i) vs ?h1))"
    using Cons.IH by (rule quiet_trans)
  then show ?case by (simp add: Let_def)
qed

lemma bindByName_quiet: "quiet h (snd (bindByName env stmt vs i args h))"
proof (induction args arbitrary: i h)
  case Nil
  show ?case by simp
next
  case (Cons a as)
  let ?name = "if Name a = [] then Itoa (Ordinal a) else Name a"
  let ?h1 = "h @ [Stmt_bindByName stmt ?name (of_nat (length ?name)) (vs ! i)]"
  have "quiet h ?h1" by simp
  then have "quiet h (snd (bindByName env stmt vs (Suc i) as ?h1))"
    using Cons.IH by (rule quiet_trans)
  then show ?case by (simp add: Let_def)
qed

text \<open>What a successful \<open>bindVars\<close> leaves behind.\<close>

lemma bindVars_success:
  assumes "bindVars env st args h = (st1, None, h1)"
  shows "arrLen st1 = fst (scanArrLen args)"
    and "PlSQLArrays st1 = PlSQLArrays st"
    and "dpiStmt st1 = dpiStmt st"
    and "inTransaction st1 = inTransaction st"
    and "newVarSizes h1 = newVarSizes h @ replicate (length args)
           (if \<not> PlSQLArrays st \<and> fst (scanArrLen args) > 0 then nat (fst (scanArrLen args)) else 1)"
proof -
  let ?st2 = "st\<lparr>vars := resize None (vars st) (length args),
                 data := resize [] (data st) (length args), arrLen := fst (scanArrLen args)\<rparr>"
  let ?m = "\<not> PlSQLArrays st \<and> fst (scanArrLen args) > 0"
  let ?n = "if ?m then nat (fst (scanArrLen args)) else 1"
  obtain named st3 e3 h3 where b: "bindArgs env ?m ?n 0 args False ?st2 h = (named, st3, e3, h3)"
    by (metis prod_cases4)
  have ok: "\<not> snd (scanArrLen args) > maxArraySize"
    "\<not> (\<not> PlSQLArrays st \<and> fst (scanArrLen args) \<noteq> -1 \<and> fst (scanArrLen args) \<noteq> snd (scanArrLen args))"
    using assms by (auto simp: bindVars_def Let_def split: if_splits)
  have e3: "e3 = None" and st13: "st1 = st3"
    using assms ok b by (auto simp: bindVars_def Let_def split: if_splits option.splits prod.splits)
  have q: "quiet h3 h1"
    using assms ok b e3 bindByPos_quiet [of h3 env "dpiStmt st3" 0 "view (vars st3)"]
      bindByName_quiet [of h3 env "dpiStmt st3" "view (vars st3)" 0 args]
    by (auto simp: bindVars_def Let_def split: if_splits prod.splits)
  note f = bindArgs_fields [OF b]
  show "arrLen st1 = fst (scanArrLen args)" "PlSQLArrays st1 = PlSQLArrays st"
    "dpiStmt st1 = dpiStmt st" "inTransaction st1 = inTransaction st"
    using f st13 by simp_all
  show "newVarSizes h1 = newVarSizes h @ replicate (length args) ?n"
    using bindArgs_sizes [of env ?m ?n 0 args False ?st2 h named st3 h3] b e3 q
    by (simp add: quiet_sizes)
qed

text \<open>What \<open>bindVars\<close> leaves behind once it is past its two tests, whether it then
  succeeds or not.\<close>

lemma bindVars_past_tests:
  assumes ok: "\<not> snd (scanArrLen args) > maxArraySize"
      "\<not> (\<not> PlSQLArrays st \<and> fst (scanArrLen args) \<noteq> -1
          \<and> fst (scanArrLen args) \<noteq> snd (scanArrLen args))"
    and b: "bindVars env st args h = (st1, err, h1)"
  shows "arrLen st1 = fst (scanArrLen args)"
    and "PlSQLArrays st1 = PlSQLArrays st"
    and "dpiStmt st1 = dpiStmt st"
    and "inTransaction st1 = inTransaction st"
    and "\<exists>k. k \<le> length args \<and> (err = None \<longrightarrow> k = length args)
           \<and> newVarSizes h1 = newVarSizes h @ replicate k
               (if \<not> PlSQLArrays st \<and> fst (scanArrLen args) > 0
                then nat (fst (scanArrLen args)) else 1)"
proof -
  let ?st2 = "st\<lparr>vars := resize None (vars st) (length args),
                 data := resize [] (data st) (length args), arrLen := fst (scanArrLen args)\<rparr>"
  let ?m = "\<not> PlSQLArrays st \<and> fst (scanArrLen args) > 0"
  let ?n = "if ?m then nat (fst (scanArrLen args)) else 1"
  obtain named st3 e3 h3 where ba: "bindArgs env ?m ?n 0 args False ?st2 h = (named, st3, e3, h3)"
    by (metis prod_cases4)
  have st13: "st1 = st3"
    using b ok ba by (auto simp: bindVars_def Let_def split: if_splits option.splits prod.splits)
  have q: "quiet h3 h1"
    using b ok ba bindByPos_quiet [of h3 env "dpiStmt st3" 0 "view (vars st3)"]
      bindByName_quiet [of h3 env "dpiStmt st3" "view (vars st3)" 0 args]
    by (auto simp: bindVars_def Let_def split: if_splits prod.splits option.splits)
  have e: "err = None \<longrightarrow> e3 = None"
    using b ok ba by (auto simp: bindVars_def Let_def split: if_splits prod.splits option.splits)
  note f = bindArgs_fields [OF ba]
  show "arrLen st1 = fst (scanArrLen args)" "PlSQLArrays st1 = PlSQLArrays st"
    "dpiStmt st1 = dpiStmt st" "inTransaction st1 = inTransaction st"
    using f st13 by simp_all
  obtain k where k: "k \<le> length args" "e3 = None \<longrightarrow> k = length args"
      "newVarSizes h3 = newVarSizes h @ replicate k ?n"
    using bindArgs_sizes_any [OF ba] by blast
  have "newVarSizes h1 = newVarSizes h @ replicate k ?n"
    using k(3) q by (simp add: quiet_sizes)
  then show "\<exists>k. k \<le> length args \<and> (err = None \<longrightarrow> k = length args)
           \<and> newVarSizes h1 = newVarSizes h @ replicate k ?n"
    using k(1,2) e by blast
qed

text \<open>
  Outside batch mode the setter is handed the argument as it is. No setter takes a
  slice, so a binding set with a slice argument (byte slices apart) never binds outside
  batch mode, be it that the flag \<open>PlSQLArrays\<close> is set or that the least length is 0.
\<close>

lemma bindArg_slice_fails:
  assumes "\<not> isByteSlice (Value a)" and "sliceLen (Value a) = Some l"
  shows "fst (snd (bindArg env False n i a st h)) \<noteq> None"
  using assms
  by (cases "Value a")
    (auto simp: bindArg_def unwrapOut_def newVar_def applySet_def dataSetLOB_def
      isByteSlice_def setError_def Let_def split: if_splits)

lemma bindArgs_slice_fails:
  assumes "a \<in> set args" and "\<not> isByteSlice (Value a)" and "sliceLen (Value a) = Some l"
  shows "fst (snd (snd (bindArgs env False n i args named st h))) \<noteq> None"
  using assms(1)
proof (induction args arbitrary: i named st h)
  case Nil
  then show ?case by simp
next
  case (Cons x xs)
  obtain st0 e0 h0 where b: "bindArg env False n i x st h = (st0, e0, h0)" by (metis prod_cases3)
  show ?case
  proof (cases e0)
    case (Some err)
    then show ?thesis using b by (simp add: Let_def)
  next
    case None
    then have "x \<noteq> a" using b bindArg_slice_fails [OF assms(2,3), of env n i st h] by auto
    then have "a \<in> set xs" using Cons.prems by simp
    then show ?thesis using Cons.IH b None by (simp add: Let_def)
  qed
qed

lemma sliceLens_nonempty:
  "sliceLens args \<noteq> [] \<Longrightarrow>
     \<exists>a l. a \<in> set args \<and> \<not> isByteSlice (Value a) \<and> sliceLen (Value a) = Some l"
  by (induction args) (auto simp: sliceLens_def split: if_splits option.splits)

lemma bindVars_slice_outside_batch_fails:
  assumes "sliceLens args \<noteq> []"
    and "PlSQLArrays st \<or> Min (set (sliceLens args)) = 0"
  shows "fst (snd (bindVars env st args h)) \<noteq> None"
proof -
  obtain a l where a: "a \<in> set args" "\<not> isByteSlice (Value a)" "sliceLen (Value a) = Some l"
    using sliceLens_nonempty [OF assms(1)] by blast
  have "fst (scanArrLen args) = Min (set (sliceLens args))"
    using assms(1) by (simp add: scanArrLen_Min_Max)
  then have m: "(\<not> PlSQLArrays st \<and> 0 < fst (scanArrLen args)) = False"
    using assms(2) by auto
  let ?st2 = "st\<lparr>vars := resize None (vars st) (length args),
                 data := resize [] (data st) (length args), arrLen := fst (scanArrLen args)\<rparr>"
  show ?thesis
  proof (cases "snd (scanArrLen args) > maxArraySize
      \<or> (\<not> PlSQLArrays st \<and> fst (scanArrLen args) \<noteq> -1
          \<and> fst (scanArrLen args) \<noteq> snd (scanArrLen args))")
    case True
    then show ?thesis by (auto simp: bindVars_def Let_def)
  next
    case False
    obtain named st3 e3 h3 where ba: "bindArgs env False 1 0 args False ?st2 h = (named, st3, e3, h3)"
      by (metis prod_cases4)
    have "e3 \<noteq> None"
      using bindArgs_slice_fails [OF a, of env 1 0 False ?st2 h] ba by simp
    then obtain e where e: "e3 = Some e" by auto
    have "bindVars env st args h = (st3, Some e, h3)"
      using False ba e by (auto simp: bindVars_def Let_def m)
    then show ?thesis by simp
  qed
qed

subsection \<open>Batch length and batch mode\<close>

text \<open>A bind of the single scalar argument 5, and a bind of the single empty slice,
  every native call succeeding.\<close>

lemma bindVars_scalar5:
  "bindVars (answering (\<lambda>h. True) 0 0) stmt0 [arg (VInt64 5)] [] =
     (stmt0\<lparr>vars := \<lparr>sl_arr = [Some 1], sl_len = 1\<rparr>,
            data := \<lparr>sl_arr = [[(Some 1, 0)]], sl_len = 1\<rparr>, arrLen := -1\<rparr>, None,
      [NewVar False ORACLE_TYPE_NUMBER NATIVE_TYPE_INT64 1 0, Data_setInt64 (Some 1, 0) 5,
       Stmt_bindByPos (Some 1) 1 (Some 1)])"
  by (simp add: bindVars_def scanArrLen_def scanStep_def isByteSlice_def arg_def stmt0_def
      maxArraySize_def resize_def store_def view_def bindArg_def unwrapOut_def newVar_def
      applySet_def answering_def Let_def)

lemma bindVars_empty_slice:
  "bindVars (answering (\<lambda>h. True) 0 0) stmt0 [int64s 0] [] =
     (stmt0\<lparr>vars := \<lparr>sl_arr = [Some 1], sl_len = 1\<rparr>,
            data := \<lparr>sl_arr = [[(Some 1, 0)]], sl_len = 1\<rparr>, arrLen := 0\<rparr>,
      Some (SetFailed (UnknownNumber (VInt64s [])) 0 0 (VInt64s [])),
      [NewVar False ORACLE_TYPE_NUMBER NATIVE_TYPE_INT64 1 0])"
  by (simp add: bindVars_def scanArrLen_def scanStep_def isByteSlice_def int64s_def stmt0_def
      maxArraySize_def resize_def store_def view_def bindArg_def unwrapOut_def newVar_def
      applySet_def setError_def isPanic_def answering_def Let_def)

text \<open>
  C3. With no slice argument the specification's batch length is 1 and its batch mode is
  active (the flag is unset and 1 is positive), but \<open>bindVars\<close> stores \<open>-1\<close> in
  \<open>st.arrLen\<close> and \<open>ExecContext\<close> executes the statement once, with
  \<open>dpiStmt_execute\<close>, not \<open>dpiStmt_executeMany\<close>. And a set whose only slice argument
  has length 0 is not executed as a scalar execution: it is bound outside batch mode, the
  setter is handed the slice and rejects it, and \<open>ExecContext\<close> returns that error
  without executing anything.
\<close>

theorem batch_length_counterexample:
  "spec_batchLength [arg (VInt64 5)] = 1
   \<and> spec_batchMode (PlSQLArrays stmt0) [arg (VInt64 5)]
   \<and> arrLen (ex_stmt (ExecContext (answering (\<lambda>h. True) 0 0) stmt0 Live [arg (VInt64 5)] [])) = -1
   \<and> ex_calls (ExecContext (answering (\<lambda>h. True) 0 0) stmt0 Live [arg (VInt64 5)] [])
       = [NewVar False ORACLE_TYPE_NUMBER NATIVE_TYPE_INT64 1 0, Data_setInt64 (Some 1, 0) 5,
          Stmt_bindByPos (Some 1) 1 (Some 1), Stmt_execute (Some 1) True,
          Stmt_getRowCount (Some 1)]
   \<and> sliceLens [int64s 0] = [0]
   \<and> ex_err (ExecContext (answering (\<lambda>h. True) 0 0) stmt0 Live [int64s 0] [])
       = Some (SetFailed (UnknownNumber (VInt64s [])) 0 0 (VInt64s []))
   \<and> ex_calls (ExecContext (answering (\<lambda>h. True) 0 0) stmt0 Live [int64s 0] [])
       = [NewVar False ORACLE_TYPE_NUMBER NATIVE_TYPE_INT64 1 0]"
proof -
  have "sliceLens [arg (VInt64 5)] = []"
    by (simp add: sliceLens_def arg_def isByteSlice_def)
  moreover have "sliceLens [int64s 0] = [0]"
    by (simp add: sliceLens_def int64s_def isByteSlice_def)
  ultimately show ?thesis
    by (simp add: spec_batchLength_def spec_batchMode_def ExecContext_def ctxErr_def
        bindVars_scalar5 bindVars_empty_slice Let_def)
      (simp add: stmt0_def answering_def)
qed

text \<open>
  C3, as the code has it. Once \<open>bindVars\<close> is past its size and shape tests, and whether
  it then succeeds or not, \<open>st.arrLen\<close> is the least slice-argument length, or \<open>-1\<close>
  when there is no slice argument. Batch mode is active exactly when the flag
  \<open>PlSQLArrays\<close> is unset and \<open>st.arrLen\<close> is positive: every buffer allocated then
  has \<open>st.arrLen\<close> slots, and after a successful bind \<open>ExecContext\<close> calls
  \<open>dpiStmt_executeMany\<close> with that count. Otherwise (no slice argument, or a least
  length of 0, or the flag set) batch mode is not active: every buffer allocated has one
  slot, and after a successful bind \<open>ExecContext\<close> calls \<open>dpiStmt_execute\<close>. A
  successful bind has allocated one buffer for every argument; after a failed bind
  \<open>ExecContext\<close> returns the error and executes nothing.
\<close>

theorem batch_length_and_mode:
  assumes "sliceLens args = [] \<or> Max (set (sliceLens args)) \<le> 1024"
    and "sliceLens args = [] \<or> PlSQLArrays st
         \<or> Min (set (sliceLens args)) = Max (set (sliceLens args))"
    and "bindVars env st args h = (st1, err, h1)"
  shows "arrLen st1 = (if sliceLens args = [] then -1 else Min (set (sliceLens args)))
    \<and> (\<exists>k. k \<le> length args \<and> (err = None \<longrightarrow> k = length args)
          \<and> newVarSizes h1 = newVarSizes h @ replicate k
               (if \<not> PlSQLArrays st \<and> arrLen st1 > 0 then nat (arrLen st1) else 1))
    \<and> (err = None \<longrightarrow>
          take (Suc (length h1)) (ex_calls (ExecContext env st Live args h))
            = h1 @ [if \<not> PlSQLArrays st \<and> arrLen st1 > 0
                    then Stmt_executeMany (dpiStmt st) (\<not> inTransaction st) (of_int (arrLen st1))
                    else Stmt_execute (dpiStmt st) (\<not> inTransaction st)])
    \<and> (err \<noteq> None \<longrightarrow>
          ExecContext env st Live args h
            = \<lparr>ex_stmt = st1, ex_result = None, ex_err = err, ex_calls = h1\<rparr>)"
proof -
  have ok1: "\<not> snd (scanArrLen args) > maxArraySize"
    using assms(1) by (auto simp: scanArrLen_Min_Max maxArraySize_def)
  have ok2: "\<not> (\<not> PlSQLArrays st \<and> fst (scanArrLen args) \<noteq> -1
          \<and> fst (scanArrLen args) \<noteq> snd (scanArrLen args))"
    using assms(2) by (auto simp: scanArrLen_Min_Max)
  note s = bindVars_past_tests [OF ok1 ok2 assms(3)]
  have a: "arrLen st1 = (if sliceLens args = [] then -1 else Min (set (sliceLens args)))"
    using s(1) by (simp add: scanArrLen_Min_Max)
  have b: "\<exists>k. k \<le> length args \<and> (err = None \<longrightarrow> k = length args)
          \<and> newVarSizes h1 = newVarSizes h @ replicate k
               (if \<not> PlSQLArrays st \<and> arrLen st1 > 0 then nat (arrLen st1) else 1)"
    using s(5) by (simp only: s(1))
  have c: "err = None \<longrightarrow>
          take (Suc (length h1)) (ex_calls (ExecContext env st Live args h))
            = h1 @ [if \<not> PlSQLArrays st \<and> arrLen st1 > 0
                    then Stmt_executeMany (dpiStmt st) (\<not> inTransaction st) (of_int (arrLen st1))
                    else Stmt_execute (dpiStmt st) (\<not> inTransaction st)]"
    using assms(3) s(2,3,4) by (simp add: ExecContext_def ctxErr_def Let_def)
  have d: "err \<noteq> None \<longrightarrow>
          ExecContext env st Live args h
            = \<lparr>ex_stmt = st1, ex_result = None, ex_err = err, ex_calls = h1\<rparr>"
    using assms(3) by (auto simp: ExecContext_def ctxErr_def)
  show ?thesis using a b c d by blast
qed

lemma bindVars_batch2:
  "fst (snd (bindVars (answering (\<lambda>h. True) 0 0) stmt0 [int64s 2] [])) = None"
  by (simp add: bindVars_def scanArrLen_def scanStep_def isByteSlice_def int64s_def stmt0_def
      maxArraySize_def resize_def store_def view_def bindArg_def unwrapOut_def newVar_def
      applySet_def answering_def index_def Let_def numeral_2_eq_2)

theorem batch_length_and_mode_witness:
  "arrLen (fst (bindVars (answering (\<lambda>h. True) 0 0) stmt0 [int64s 2] [])) = 2
   \<and> newVarSizes (snd (snd (bindVars (answering (\<lambda>h. True) 0 0) stmt0 [int64s 2] []))) = [2]
   \<and> take (Suc (length (snd (snd (bindVars (answering (\<lambda>h. True) 0 0) stmt0 [int64s 2] [])))))
        (ex_calls (ExecContext (answering (\<lambda>h. True) 0 0) stmt0 Live [int64s 2] []))
      = snd (snd (bindVars (answering (\<lambda>h. True) 0 0) stmt0 [int64s 2] []))
        @ [Stmt_executeMany (Some 1) True 2]
   \<and> arrLen (fst (bindVars (answering (\<lambda>h. True) 0 0) stmt0 [int64s 0] [])) = 0
   \<and> newVarSizes (snd (snd (bindVars (answering (\<lambda>h. True) 0 0) stmt0 [int64s 0] []))) = [1]
   \<and> ex_calls (ExecContext (answering (\<lambda>h. True) 0 0) stmt0 Live [int64s 0] [])
      = [NewVar False ORACLE_TYPE_NUMBER NATIVE_TYPE_INT64 1 0]"
proof -
  let ?B = "bindVars (answering (\<lambda>h. True) 0 0) stmt0 [int64s 2] []"
  have l2: "sliceLens [int64s 2] = [2]"
    by (simp add: sliceLens_def int64s_def isByteSlice_def)
  have l0: "sliceLens [int64s 0] = [0]"
    by (simp add: sliceLens_def int64s_def isByteSlice_def)
  have f: "PlSQLArrays stmt0 = False" "dpiStmt stmt0 = Some 1" "inTransaction stmt0 = False"
    by (simp_all add: stmt0_def)
  have b2: "?B = (fst ?B, None, snd (snd ?B))"
    using bindVars_batch2 by (metis prod.collapse)
  have t2: "arrLen (fst ?B) = 2 \<and> newVarSizes (snd (snd ?B)) = [2]
      \<and> take (Suc (length (snd (snd ?B))))
           (ex_calls (ExecContext (answering (\<lambda>h. True) 0 0) stmt0 Live [int64s 2] []))
         = snd (snd ?B) @ [Stmt_executeMany (Some 1) True 2]"
    using batch_length_and_mode [OF _ _ b2] by (auto simp: l2 f)
  have t0: "arrLen (fst (bindVars (answering (\<lambda>h. True) 0 0) stmt0 [int64s 0] [])) = 0
      \<and> newVarSizes (snd (snd (bindVars (answering (\<lambda>h. True) 0 0) stmt0 [int64s 0] []))) = [1]
      \<and> ex_calls (ExecContext (answering (\<lambda>h. True) 0 0) stmt0 Live [int64s 0] [])
         = [NewVar False ORACLE_TYPE_NUMBER NATIVE_TYPE_INT64 1 0]"
    using batch_length_and_mode [OF _ _ bindVars_empty_slice]
    by (auto simp: l0 f bindVars_empty_slice)
  show ?thesis using t2 t0 by blast
qed

text \<open>After a successful bind the two tests have been passed, so that the above holds of
  every successful bind.\<close>

lemma batch_after_successful_bind:
  assumes "bindVars env st args h = (st1, None, h1)"
  shows "arrLen st1 = (if sliceLens args = [] then -1 else Min (set (sliceLens args)))
    \<and> newVarSizes h1 = newVarSizes h @ replicate (length args)
          (if \<not> PlSQLArrays st \<and> arrLen st1 > 0 then nat (arrLen st1) else 1)
    \<and> take (Suc (length h1)) (ex_calls (ExecContext env st Live args h))
        = h1 @ [if \<not> PlSQLArrays st \<and> arrLen st1 > 0
                then Stmt_executeMany (dpiStmt st) (\<not> inTransaction st) (of_int (arrLen st1))
                else Stmt_execute (dpiStmt st) (\<not> inTransaction st)]"
proof -
  note s = bindVars_success [OF assms]
  have a: "arrLen st1 = (if sliceLens args = [] then -1 else Min (set (sliceLens args)))"
    using s(1) by (simp add: scanArrLen_Min_Max)
  have b: "newVarSizes h1 = newVarSizes h @ replicate (length args)
          (if \<not> PlSQLArrays st \<and> arrLen st1 > 0 then nat (arrLen st1) else 1)"
    using s(5) s(1) by simp
  have c: "take (Suc (length h1)) (ex_calls (ExecContext env st Live args h))
        = h1 @ [if \<not> PlSQLArrays st \<and> arrLen st1 > 0
                then Stmt_executeMany (dpiStmt st) (\<not> inTransaction st) (of_int (arrLen st1))
                else Stmt_execute (dpiStmt st) (\<not> inTransaction st)]"
    using assms s(2,3,4) by (simp add: ExecContext_def ctxErr_def Let_def)
  show ?thesis using a b c by blast
qed

subsection \<open>Capacity of text buffers\<close>

lemma fold_strings_Max:
  "fold (\<lambda>s bufSize. if bufSize < 4 * int (length s) then 4 * int (length s) else bufSize) ss acc
     = Max (insert acc (set (map (\<lambda>s. 4 * int (length s)) ss)))"
proof (induction ss arbitrary: acc)
  case Nil
  show ?case by simp
next
  case (Cons s ss)
  let ?f = "\<lambda>s bufSize. if bufSize < 4 * int (length s) then 4 * int (length s) else bufSize"
  have "fold ?f (s # ss) acc = fold ?f ss (?f s acc)" by simp
  also have "\<dots> = Max (insert (?f s acc) (set (map (\<lambda>s. 4 * int (length s)) ss)))"
    by (rule Cons.IH)
  also have "?f s acc = max acc (4 * int (length s))" by simp
  also have "Max (insert (max acc (4 * int (length s))) (set (map (\<lambda>s. 4 * int (length s)) ss)))
               = Max (insert acc (set (map (\<lambda>s. 4 * int (length s)) (s # ss))))"
    by (cases "ss = []") (simp_all add: max.assoc max.left_commute)
  finally show ?case .
qed

lemma stringsBufSize_Max:
  "stringsBufSize ss = 4 * Max (set (0 # map (int \<circ> length) ss))"
proof -
  have m: "mono (\<lambda>x::int. 4 * x)" by (simp add: mono_def)
  have "stringsBufSize ss = Max (insert 0 (set (map (\<lambda>s. 4 * int (length s)) ss)))"
    by (simp add: stringsBufSize_def Let_def fold_strings_Max)
  also have "insert 0 (set (map (\<lambda>s. 4 * int (length s)) ss))
               = (\<lambda>x. 4 * x) ` set (0 # map (int \<circ> length) ss)"
    by (simp add: image_image)
  also have "Max \<dots> = 4 * Max (set (0 # map (int \<circ> length) ss))"
    using mono_Max_commute [OF m, of "set (0 # map (int \<circ> length) ss)"] by simp
  finally show ?thesis .
qed

lemma bindArg_first_call:
  assumes v: "unwrapOut (Value a) = Inr v"
    and ts: "typeSwitch v = Some (ty, natTyp, bufSize, setter)"
  shows "take (Suc (length h)) (snd (snd (bindArg env m n i a st h)))
           = h @ [NewVar (PlSQLArrays st) ty natTyp n bufSize]"
proof -
  obtain dv dat err h0 where nv: "newVar env (PlSQLArrays st) ty natTyp n bufSize h = (dv, dat, err, h0)"
    by (metis prod_cases4)
  note c = newVar_calls [OF nv]
  have "quiet h0 (snd (snd (bindArg env m n i a st h)))"
  proof (cases err)
    case (Some e)
    then show ?thesis using v ts nv by (simp add: bindArg_def)
  next
    case None
    show ?thesis
    proof (cases m)
      case False
      then show ?thesis
        using v ts nv None applySet_quiet [of h0 env setter dv 0 "dat ! 0" "Value a"]
        by (auto simp: bindArg_def Let_def split: if_splits prod.splits option.splits)
    next
      case True
      then show ?thesis
        using v ts nv None setSlots_quiet [of h0 env setter dv dat i "Value a" "[0..<n]"]
        by (auto simp: bindArg_def Let_def split: prod.splits)
    qed
  qed
  then obtain ext where e: "snd (snd (bindArg env m n i a st h)) = h0 @ ext"
    by (auto dest: quietD)
  have "Suc (length h) \<le> length h0" using c
    by (metis length_take min.cobounded1 length_append_singleton)
  then have "take (Suc (length h)) (h0 @ ext) = take (Suc (length h)) h0" by simp
  then show ?thesis using e c by simp
qed

text \<open>
  C8. The capacity is four times the byte length, not the character length: the string
  \<open>0xC3 0xA9\<close> is one character of two bytes, and its buffer has capacity 8.
\<close>

theorem text_capacity_counterexample:
  "charCount [CHR 0xC3, CHR 0xA9] = 1
   \<and> length [CHR 0xC3, CHR 0xA9] = 2
   \<and> snd (snd (bindVars (answering (\<lambda>h. True) 0 0) stmt0 [arg (VString [CHR 0xC3, CHR 0xA9])] []))
       = [NewVar False ORACLE_TYPE_VARCHAR NATIVE_TYPE_BYTES 1 8,
          Var_setFromBytes (Some 1) 0 [0xC3, 0xA9] 2, Stmt_bindByPos (Some 1) 1 (Some 1)]"
  by (simp add: charCount_def bindVars_def scanArrLen_def scanStep_def isByteSlice_def arg_def
      stmt0_def maxArraySize_def resize_def store_def view_def bindArg_def unwrapOut_def
      newVar_def applySet_def setFromBytes_def answering_def Let_def)

text \<open>
  C8, as the code has it. For a text argument (a string or a slice of strings, also as
  the destination of \<open>sql.Out\<close>), the round of the loop in \<open>bindVars\<close> calls \<open>newVar\<close>
  with a buffer size of four times the byte length (\<open>len\<close>) of the string, and for a
  slice four times the greatest byte length of its strings (0 for an empty slice). For
  text of single-byte characters the byte length is the character length.
\<close>

theorem text_capacity:
  "(unwrapOut (Value a) = Inr (VString s) \<longrightarrow>
      take (Suc (length h)) (snd (snd (bindArg env m n i a st h)))
        = h @ [NewVar (PlSQLArrays st) ORACLE_TYPE_VARCHAR NATIVE_TYPE_BYTES n
                 (4 * int (length s))])
   \<and> (unwrapOut (Value a) = Inr (VStrings ss) \<longrightarrow>
      take (Suc (length h)) (snd (snd (bindArg env m n i a st h)))
        = h @ [NewVar (PlSQLArrays st) ORACLE_TYPE_VARCHAR NATIVE_TYPE_BYTES n
                 (4 * Max (set (0 # map (int \<circ> length) ss)))])"
proof (intro conjI impI)
  assume "unwrapOut (Value a) = Inr (VString s)"
  then show "take (Suc (length h)) (snd (snd (bindArg env m n i a st h)))
        = h @ [NewVar (PlSQLArrays st) ORACLE_TYPE_VARCHAR NATIVE_TYPE_BYTES n (4 * int (length s))]"
    by (rule bindArg_first_call) simp
next
  assume "unwrapOut (Value a) = Inr (VStrings ss)"
  then show "take (Suc (length h)) (snd (snd (bindArg env m n i a st h)))
        = h @ [NewVar (PlSQLArrays st) ORACLE_TYPE_VARCHAR NATIVE_TYPE_BYTES n
                 (4 * Max (set (0 # map (int \<circ> length) ss)))]"
    by (rule bindArg_first_call) (simp add: stringsBufSize_Max)
qed

theorem text_capacity_witness:
  "take 1 (snd (snd (bindArg (answering (\<lambda>h. True) 0 0) False 1 0 (arg (VString ''abc'')) stmt0 [])))
     = [NewVar False ORACLE_TYPE_VARCHAR NATIVE_TYPE_BYTES 1 12]
   \<and> take 1 (snd (snd (bindArg (answering (\<lambda>h. True) 0 0) False 1 0
                (arg (VOut (VStrings [''a'', ''abc'']))) stmt0 [])))
     = [NewVar False ORACLE_TYPE_VARCHAR NATIVE_TYPE_BYTES 1 12]"
  using text_capacity [where a = "arg (VString ''abc'')" and s = "''abc''" and h = "[]"
      and env = "answering (\<lambda>h. True) 0 0" and m = False and n = 1 and i = 0 and st = stmt0]
    text_capacity [where a = "arg (VOut (VStrings [''a'', ''abc'']))" and ss = "[''a'', ''abc'']"
      and h = "[]" and env = "answering (\<lambda>h. True) 0 0" and m = False and n = 1 and i = 0
      and st = stmt0]
  by (simp add: arg_def unwrapOut_def stmt0_def)

lemma charCount_single_byte:
  "\<forall>c\<in>set s. (of_char c :: nat) < 128 \<Longrightarrow> charCount s = length s"
  by (induction s) (simp_all add: charCount_def)

subsection \<open>Output parameters\<close>

text \<open>
  C9. The type switch runs on the unwrapped destination, but the setter is called on
  \<open>a.Value\<close>, the \<open>sql.Out\<close> wrapper itself. For an \<open>sql.Out\<close> around a pointer to
  the \<open>int64\<close> 5, the buffer is allocated for NUMBER / INT64, \<open>dataSetNumber\<close> then
  rejects the wrapper, nothing is written into the slot and \<open>bindVars\<close> fails.
\<close>

theorem Out_argument_is_not_written:
  "let a = arg (VOut (VPtr (Some (VInt64 5))));
       res = bindVars (answering (\<lambda>h. True) 0 0) stmt0 [a] []
   in unwrapOut (Value a) = Inr (VInt64 5)
      \<and> fst (snd res) = Some (SetFailed (UnknownNumber (Value a)) 0 0 (Value a))
      \<and> snd (snd res) = [NewVar False ORACLE_TYPE_NUMBER NATIVE_TYPE_INT64 1 0]"
  by (simp add: bindVars_def scanArrLen_def scanStep_def isByteSlice_def arg_def
      stmt0_def maxArraySize_def resize_def store_def view_def bindArg_def unwrapOut_def
      newVar_def applySet_def setError_def isPanic_def answering_def Let_def)

text \<open>No setter accepts the wrapper, so a round of the loop never succeeds on an
  \<open>sql.Out\<close> argument.\<close>

lemma applySet_Out_fails: "fst (applySet env setter dv pos d (VOut x) h) \<noteq> None"
  by (cases setter) (simp_all add: applySet_def dataSetLOB_def)

lemma bindArg_Out_fails:
  assumes "Value a = VOut x" and "0 < n"
  shows "fst (snd (bindArg env m n i a st h)) \<noteq> None"
proof (cases "unwrapOut (Value a)")
  case (Inl e)
  then show ?thesis by (simp add: bindArg_def)
next
  case (Inr v)
  show ?thesis
  proof (cases "typeSwitch v")
    case None
    then show ?thesis using Inr by (simp add: bindArg_def)
  next
    case (Some t)
    obtain ty natTyp bufSize setter where t: "t = (ty, natTyp, bufSize, setter)"
      by (metis prod_cases4)
    obtain dv dat err h0 where nv: "newVar env (PlSQLArrays st) ty natTyp n bufSize h = (dv, dat, err, h0)"
      by (metis prod_cases4)
    have up: "[0..<n] = 0 # [Suc 0..<n]" using assms(2) by (simp add: upt_conv_Cons)
    show ?thesis
    proof (cases err)
      case (Some e)
      then show ?thesis using Inr \<open>typeSwitch v = Some t\<close> t nv by (simp add: bindArg_def)
    next
      case None
      then show ?thesis
        using Inr \<open>typeSwitch v = Some t\<close> t nv assms(1)
          applySet_Out_fails [of env setter dv 0 "dat ! 0" x h0]
        by (auto simp: bindArg_def Let_def up index_def split: prod.splits option.splits)
    qed
  qed
qed

section \<open>Properties of result sets\<close>

text \<open>The errors of the conversion of a row are never \<open>io.EOF\<close>.\<close>

lemma newVar_not_EOF: "newVar env p ty nt n b h = (dv, dat, Some e, h1) \<Longrightarrow> e \<noteq> EOF"
  by (auto simp: newVar_def Let_def split: if_splits)

lemma openColumn_not_EOF: "openColumn env st i r h = (r1, Some e, h1) \<Longrightarrow> e \<noteq> EOF"
  by (auto simp: openColumn_def Let_def split: if_splits prod.splits option.splits
      dest: newVar_not_EOF)

lemma openColumns_not_EOF: "openColumns env st is r h = (r1, Some e, h1) \<Longrightarrow> e \<noteq> EOF"
proof (induction "is" arbitrary: r h)
  case Nil
  then show ?case by simp
next
  case (Cons i "is")
  obtain r0 e0 h0 where c: "openColumn env st i r h = (r0, e0, h0)" by (metis prod_cases3)
  show ?case
  proof (cases e0)
    case None
    then show ?thesis using Cons.prems c Cons.IH by simp
  next
    case (Some x)
    then show ?thesis using Cons.prems c openColumn_not_EOF by auto
  qed
qed

lemma openRows_not_EOF: "openRows env st n h = (r1, Some e, h1) \<Longrightarrow> e \<noteq> EOF"
  by (auto simp: openRows_def Let_def split: prod.splits option.splits if_splits
      dest: openColumns_not_EOF)

lemma convertStmt_not_EOF: "convertStmt env d h \<noteq> (Inl EOF, h1)"
  by (auto simp: convertStmt_def Let_def split: prod.splits option.splits
      dest: openRows_not_EOF)

lemma convert_not_EOF: "convert env col d h \<noteq> (Inl EOF, h1)"
  by (simp add: convert_def Let_def convertStmt_not_EOF split: option.split)

lemma fillDest_not_EOF: "fillDest env r i cols dest h \<noteq> (dest1, Some EOF, h1)"
proof (induction cols arbitrary: i dest h)
  case Nil
  show ?case by simp
next
  case (Cons col cols)
  show ?case
    by (auto simp: Let_def convert_not_EOF Cons.IH split: prod.splits sum.splits)
qed

lemma nextMany_finished:
  "r_finished r \<Longrightarrow> nextMany env r dests h = (replicate (length dests) (Some EOF), r, h)"
  by (induction dests) (simp_all add: Next_def Let_def)

lemma Next_EOF_cases:
  assumes "nx_err (Next env r dest h) = Some EOF" and "\<not> r_finished r"
  shows "r_fetched r = 0
    \<and> nx_calls (Next env r dest h) = h @ [Stmt_fetchRows (dpiStmt (r_statement r)) (of_nat fetchRowCount)]
    \<and> r_finished (nx_rows (Next env r dest h))
        = (dpi_moreRows env (h @ [Stmt_fetchRows (dpiStmt (r_statement r)) (of_nat fetchRowCount)]) = 0)"
  using assms
  by (auto simp: Next_def Let_def fillDest_not_EOF split: if_splits prod.splits option.splits)

text \<open>
  C6. A request that finds no row reports \<open>io.EOF\<close>, but marks the cursor finished only
  when the library also says that no more rows are to come. Here the library says that
  more rows are to come, so the next request fetches again and, the fetch failing,
  returns an error.
\<close>

theorem exhaustion_without_no_more_data_counterexample:
  "let env = answering (\<lambda>h. length h < 2) 0 3113;
       first = Next env rows0 [] [];
       second = Next env (nx_rows first) [] (nx_calls first)
   in nx_err first = Some EOF
      \<and> nx_calls first = [Stmt_fetchRows (Some 1) 1]
      \<and> nx_err second = Some (Native \<lparr>Code = 3113, Message = []\<rparr>)"
  by (simp add: Next_def rows0_def stmt0_def answering_def fetchRowCount_def Let_def)

text \<open>
  C6, as the code has it. Once a next-row request has reported \<open>io.EOF\<close> on a cursor
  that was finished already, or while the library signalled that no more rows are to come
  (\<open>moreRows = 0\<close>), every later request reports \<open>io.EOF\<close>, makes no native call and
  leaves the cursor as it is, whatever the library would answer.
\<close>

theorem exhausted_cursor_stays_exhausted:
  assumes "nx_err (Next env r dest h) = Some EOF"
    and "r_finished r
         \<or> dpi_moreRows env (h @ [Stmt_fetchRows (dpiStmt (r_statement r)) (of_nat fetchRowCount)]) = 0"
  shows "nextMany env' (nx_rows (Next env r dest h)) dests h'
           = (replicate (length dests) (Some EOF), nx_rows (Next env r dest h), h')"
proof -
  have "r_finished (nx_rows (Next env r dest h))"
  proof (cases "r_finished r")
    case True
    then show ?thesis by (simp add: Next_def)
  next
    case False
    then show ?thesis using assms Next_EOF_cases [of env r dest h] by simp
  qed
  then show ?thesis by (rule nextMany_finished)
qed

theorem exhausted_cursor_stays_exhausted_witness:
  "nx_err (Next (answering (\<lambda>h. True) 0 0\<lparr>dpi_moreRows := \<lambda>h. 0\<rparr>) rows0 [] []) = Some EOF
   \<and> nextMany (answering (\<lambda>h. False) 0 3113)
        (nx_rows (Next (answering (\<lambda>h. True) 0 0\<lparr>dpi_moreRows := \<lambda>h. 0\<rparr>) rows0 [] []))
        [[], [], []] [Stmt_fetchRows (Some 1) 1]
      = ([Some EOF, Some EOF, Some EOF],
         nx_rows (Next (answering (\<lambda>h. True) 0 0\<lparr>dpi_moreRows := \<lambda>h. 0\<rparr>) rows0 [] []),
         [Stmt_fetchRows (Some 1) 1])"
proof -
  let ?env = "answering (\<lambda>h. True) 0 0\<lparr>dpi_moreRows := \<lambda>h. 0\<rparr>"
  have e: "nx_err (Next ?env rows0 [] []) = Some EOF"
    by (simp add: Next_def rows0_def answering_def Let_def)
  have m: "r_finished rows0 \<or> dpi_moreRows ?env
             ([] @ [Stmt_fetchRows (dpiStmt (r_statement rows0)) (of_nat fetchRowCount)]) = 0"
    by simp
  show ?thesis
    using e exhausted_cursor_stays_exhausted [OF e m, where env' = "answering (\<lambda>h. False) 0 3113"
        and dests = "[[], [], []]" and h' = "[Stmt_fetchRows (Some 1) 1]"]
    by (simp add: numeral_3_eq_3)
qed

end
